theory Spec2Isabelle
  imports Complex_Main
begin

section \<open>Points and the Euclidean distance\<close>

text \<open>
  A point of space is a triple of coordinates. The source computes with floating-point
  numbers; the model takes the coordinates as real numbers, so that the comparisons
  against the tolerance are the mathematical ones.
\<close>

type_synonym point = "real \<times> real \<times> real"

text \<open>
  \<^verbatim>\<open>_e_dist(self, x1, x2)\<close>:
  \<^verbatim>\<open>sqrt((x1[0]-x2[0])**2 + (x1[1]-x2[1])**2 + (x1[2]-x2[2])**2)\<close>.
\<close>

fun e_dist :: "point \<Rightarrow> point \<Rightarrow> real" where
  "e_dist (a0, a1, a2) (b0, b1, b2) = sqrt ((a0 - b0)\<^sup>2 + (a1 - b1)\<^sup>2 + (a2 - b2)\<^sup>2)"

section \<open>The edge matcher\<close>

text \<open>
  The spline patch is an object of the external spline library. The matcher only calls
  its method \<^verbatim>\<open>getValueEdge(edge, s)\<close>, the point of the boundary curve
  \<^verbatim>\<open>edge\<close> at the parameter \<^verbatim>\<open>s\<close>; the model takes that method as the
  value \<open>surf_eval\<close> of the patch. The parameter \<^verbatim>\<open>0.5\<close> is \<open>1 / 2\<close>.
\<close>

type_synonym surf_eval = "int \<Rightarrow> real \<Rightarrow> point"

text \<open>
  \<^verbatim>\<open>_test_edge(self, surf1, surf2, i, j, edge_tol)\<close> returns the pair
  \<^verbatim>\<open>(coinc, dir_flag)\<close>. The branches are those of the source, in its order:
  same sense first, then (\<^verbatim>\<open>elif\<close>) opposite sense, then neither, where
  \<^verbatim>\<open>dir_flag\<close> keeps its initial value 1.
\<close>

definition test_edge :: "surf_eval \<Rightarrow> surf_eval \<Rightarrow> int \<Rightarrow> int \<Rightarrow> real \<Rightarrow> bool \<times> int" where
  "test_edge surf1 surf2 i j edge_tol =
     (let val1_beg = surf1 i 0;
          val1_end = surf1 i 1;
          val2_beg = surf2 j 0;
          val2_end = surf2 j 1
      in if e_dist val1_beg val2_beg < edge_tol \<and> e_dist val1_end val2_end < edge_tol then
           (let mid1 = surf1 i (1 / 2); mid2 = surf2 j (1 / 2)
            in (if e_dist mid1 mid2 < edge_tol then True else False, 1))
         else if e_dist val1_beg val2_end < edge_tol \<and> e_dist val1_end val2_beg < edge_tol then
           (let mid1 = surf1 i (1 / 2); mid2 = surf2 j (1 / 2)
            in (if e_dist mid1 mid2 < edge_tol then True else False, - 1))
         else (False, 1))"

text \<open>The two endpoint pairings and the midpoint test, as the specification words them.\<close>

definition same_sense :: "surf_eval \<Rightarrow> surf_eval \<Rightarrow> int \<Rightarrow> int \<Rightarrow> real \<Rightarrow> bool" where
  "same_sense A B eA eB tol \<longleftrightarrow>
     e_dist (A eA 0) (B eB 0) < tol \<and> e_dist (A eA 1) (B eB 1) < tol"

definition reversed_sense :: "surf_eval \<Rightarrow> surf_eval \<Rightarrow> int \<Rightarrow> int \<Rightarrow> real \<Rightarrow> bool" where
  "reversed_sense A B eA eB tol \<longleftrightarrow>
     e_dist (A eA 0) (B eB 1) < tol \<and> e_dist (A eA 1) (B eB 0) < tol"

definition mid_close :: "surf_eval \<Rightarrow> surf_eval \<Rightarrow> int \<Rightarrow> int \<Rightarrow> real \<Rightarrow> bool" where
  "mid_close A B eA eB tol \<longleftrightarrow> e_dist (A eA (1 / 2)) (B eB (1 / 2)) < tol"

text \<open>Sample patches for the closed instances: every boundary is a straight segment.\<close>

definition seg_x :: surf_eval where
  "seg_x e s = (s, 0, 0)"

definition seg_x_rev :: surf_eval where
  "seg_x_rev e s = (1 - s, 0, 0)"

text \<open>A closed boundary curve: its two end points are the same point.\<close>

definition ring :: surf_eval where
  "ring e s = (cos (2 * pi * s), sin (2 * pi * s), 0)"

lemma e_dist_commute: "e_dist p q = e_dist q p"
  by (cases p, cases q) (simp add: power2_commute)

lemma e_dist_self [simp]: "e_dist p p = 0"
  by (cases p) simp

lemma test_edge_coinc:
  "fst (test_edge A B eA eB tol) \<longleftrightarrow>
     (same_sense A B eA eB tol \<or> reversed_sense A B eA eB tol) \<and> mid_close A B eA eB tol"
  by (auto simp: test_edge_def same_sense_def reversed_sense_def mid_close_def Let_def)

lemma test_edge_dir:
  "snd (test_edge A B eA eB tol) =
     (if same_sense A B eA eB tol then 1 else if reversed_sense A B eA eB tol then - 1 else 1)"
  by (auto simp: test_edge_def same_sense_def reversed_sense_def mid_close_def Let_def)

text \<open>
  Claim C1, as stated: the direction is \<open>- 1\<close> whenever the reversed-sense pairing
  matched. Two closed boundary curves that coincide (each starts and ends at the same
  point) match in both pairings; the source tests the same sense first and returns
  \<open>+ 1\<close>.
\<close>

theorem test_edge_direction_counterexample:
  "\<not> (reversed_sense ring ring 0 0 (1 / 10) \<longrightarrow> snd (test_edge ring ring 0 0 (1 / 10)) = - 1)"
  by (simp add: reversed_sense_def test_edge_def ring_def)

text \<open>
  Claim C1, amended: the matcher returns \<open>isCoincident = True\<close> exactly when one of
  the two endpoint pairings holds and the midpoint distance is below the tolerance too;
  the direction is \<open>+ 1\<close> when the same-sense pairing matched, and \<open>- 1\<close> when the
  reversed-sense pairing matched and the same-sense pairing did not.
\<close>

theorem test_edge_spec:
  "(fst (test_edge A B eA eB tol) \<longleftrightarrow>
      (same_sense A B eA eB tol \<or> reversed_sense A B eA eB tol) \<and> mid_close A B eA eB tol) \<and>
   (same_sense A B eA eB tol \<longrightarrow> snd (test_edge A B eA eB tol) = 1) \<and>
   (reversed_sense A B eA eB tol \<and> \<not> same_sense A B eA eB tol \<longrightarrow>
      snd (test_edge A B eA eB tol) = - 1)"
  by (simp add: test_edge_coinc test_edge_dir)

theorem test_edge_spec_witness:
  "same_sense seg_x seg_x 0 0 (1 / 10) \<and>
   snd (test_edge seg_x seg_x 0 0 (1 / 10)) = 1 \<and>
   reversed_sense seg_x seg_x_rev 0 0 (1 / 10) \<and>
   \<not> same_sense seg_x seg_x_rev 0 0 (1 / 10) \<and>
   snd (test_edge seg_x seg_x_rev 0 0 (1 / 10)) = - 1"
proof -
  have s: "same_sense seg_x seg_x 0 0 (1 / 10)"
    by (simp add: same_sense_def seg_x_def)
  have r: "reversed_sense seg_x seg_x_rev 0 0 (1 / 10) \<and> \<not> same_sense seg_x seg_x_rev 0 0 (1 / 10)"
    by (simp add: same_sense_def reversed_sense_def seg_x_def seg_x_rev_def)
  from s test_edge_spec [of seg_x seg_x 0 0 "1 / 10"]
  have d1: "snd (test_edge seg_x seg_x 0 0 (1 / 10)) = 1"
    by blast
  from r test_edge_spec [of seg_x seg_x_rev 0 0 "1 / 10"]
  have d2: "snd (test_edge seg_x seg_x_rev 0 0 (1 / 10)) = - 1"
    by blast
  from s r d1 d2 show ?thesis
    by blast
qed

text \<open>
  Claim C9: the matcher is symmetric in its arguments. Swapping the two patch edges gives
  the same pair: the same \<open>isCoincident\<close> and the same direction.
\<close>

theorem test_edge_symmetric:
  "test_edge A B eA eB tol = test_edge B A eB eA tol"
  unfolding test_edge_def Let_def
  by (simp add: e_dist_commute conj_commute)


section \<open>Python values shared by the operations\<close>

text \<open>
  The exceptions the modelled code can raise. An operation that raises returns the
  exception as a value; the objects it changed in place before raising stay changed.
\<close>

datatype error = IndexError | ValueError | TypeError | EOFError | SystemExit

text \<open>
  Indexing a Python list of length \<open>n\<close> with an integer: a negative index counts from
  the end, an index outside \<open>[-n, n)\<close> raises \<^verbatim>\<open>IndexError\<close>.
\<close>

definition py_index :: "nat \<Rightarrow> int \<Rightarrow> nat option" where
  "py_index n i =
     (if 0 \<le> i \<and> i < int n then Some (nat i)
      else if - int n \<le> i \<and> i < 0 then Some (nat (int n + i))
      else None)"

section \<open>The data model\<close>

text \<open>
  \<^verbatim>\<open>class edge\<close>: one connection record. \<open>type\<close> is 0 for a symmetry (mirror)
  edge and 1 for a stitched edge; \<open>f1, e1\<close> are the patch and edge of the first (master)
  side, \<open>f2, e2\<close> of the second (slave) side; \<open>dg\<close> is the driving group.
\<close>

record edge =
  type :: int
  f1 :: int
  e1 :: int
  dg :: int
  Nctl :: int
  dof :: int
  cont :: int
  dir :: int
  f2 :: int
  e2 :: int

text \<open>
  The entry \<^verbatim>\<open>node_con[n]\<close> of a patch corner is a Python list of one of two shapes:
  \<^verbatim>\<open>[face, node]\<close>, the back-reference of a slave corner, or a list of
  \<^verbatim>\<open>[face, node]\<close> pairs, the slaves of a master corner, filled by the
  back-propagation pass. The empty list \<^verbatim>\<open>[]\<close>, which the source tests for with
  \<^verbatim>\<open>== []\<close>, is \<open>Slaves []\<close>.
\<close>

datatype node_con = Slave int int | Slaves "(int \<times> int) list"

text \<open>
  The spline patch object of the external spline library, with the attributes the
  modelled operations read and write: the control-point grid \<^verbatim>\<open>coef[i, j, :]\<close> of
  \<open>Nctlu \<times> Nctlv\<close> points, the knot vectors \<^verbatim>\<open>tu\<close> and \<^verbatim>\<open>tv\<close>, and the
  connectivity attributes, lists of four entries indexed by edge or by corner. The
  attribute \<^verbatim>\<open>dir\<close> of the patch is \<open>edge_dir\<close> here (\<open>dir\<close> is the field of the
  connection record).
\<close>

record surf =
  Nctlu :: nat
  Nctlv :: nat
  coef :: "nat \<times> nat \<Rightarrow> point"
  tu :: "real list"
  tv :: "real list"
  edge_con :: "(int \<times> int) option list"
  master_edge :: "bool list"
  edge_dir :: "int list"
  edge_type :: "int list"
  master_node :: "bool option list"
  node_con :: "node_con list"

text \<open>
  The \<^verbatim>\<open>pyGeo\<close> object: its patches, their number, and the connection records
  (\<^verbatim>\<open>self.con\<close>, which is \<^verbatim>\<open>None\<close> until a connectivity is computed or loaded).
\<close>

record pyGeo =
  surfs :: "surf list"
  nPatch :: nat
  con :: "edge list option"

section \<open>The stitch operation\<close>

text \<open>
  Modelled from the spec: \<^verbatim>\<open>boundaryControlSequence(edgeIndex)\<close> and
  \<^verbatim>\<open>setBoundaryControlSequence(edgeIndex, seq)\<close>, the methods \<^verbatim>\<open>getCoefEdge\<close> and
  \<^verbatim>\<open>setCoefEdge\<close> of the spline patch object, which are not part of the sources. The
  patch owns a two-dimensional grid of control points; an edge is one boundary row or
  column of the grid, in increasing index order. Edges 0 and 1 run along \<open>u\<close> (their knot
  vector is \<^verbatim>\<open>tu\<close> in \<^verbatim>\<open>propagateKnotVectors\<close>) at the first and last \<open>v\<close> index,
  edges 2 and 3 run along \<open>v\<close> at the first and last \<open>u\<close> index. This is the layout under
  which \<^verbatim>\<open>_getNodesFromEdge\<close> holds: edge 0 joins the corners 0 and 1, edge 1 the
  corners 2 and 3, edge 2 the corners 0 and 2, edge 3 the corners 1 and 3; two edges of
  a patch that meet share the corner control point. \<open>edge_idx\<close> lists the grid cells of an
  edge; an edge index outside \<open>{0, 1, 2, 3}\<close> and an empty grid are errors.
\<close>

definition edge_idx :: "surf \<Rightarrow> int \<Rightarrow> (nat \<times> nat) list option" where
  "edge_idx s e =
     (if e = 0 then (if Nctlv s = 0 then None else Some (map (\<lambda>i. (i, 0)) [0..<Nctlu s]))
      else if e = 1 then (if Nctlv s = 0 then None else Some (map (\<lambda>i. (i, Nctlv s - 1)) [0..<Nctlu s]))
      else if e = 2 then (if Nctlu s = 0 then None else Some (map (\<lambda>j. (0, j)) [0..<Nctlv s]))
      else if e = 3 then (if Nctlu s = 0 then None else Some (map (\<lambda>j. (Nctlu s - 1, j)) [0..<Nctlv s]))
      else None)"

text \<open>Modelled from the spec: \<^verbatim>\<open>getCoefEdge\<close>, the control points along an edge.\<close>

definition getCoefEdge :: "surf \<Rightarrow> int \<Rightarrow> error + point list" where
  "getCoefEdge s e =
     (case edge_idx s e of None \<Rightarrow> Inl IndexError | Some idx \<Rightarrow> Inr (map (coef s) idx))"

definition set_cells :: "(nat \<times> nat \<Rightarrow> point) \<Rightarrow> (nat \<times> nat) list \<Rightarrow> point list \<Rightarrow> nat \<times> nat \<Rightarrow> point" where
  "set_cells c idx sq = (\<lambda>k. case map_of (zip idx sq) k of None \<Rightarrow> c k | Some x \<Rightarrow> x)"

text \<open>
  Modelled from the spec: \<^verbatim>\<open>setCoefEdge\<close>, which overwrites the control points along
  an edge with a sequence of the same length (another length is a \<^verbatim>\<open>ValueError\<close>, and
  nothing is written).
\<close>

definition setCoefEdge :: "surf \<Rightarrow> int \<Rightarrow> point list \<Rightarrow> error + surf" where
  "setCoefEdge s e sq =
     (case edge_idx s e of
        None \<Rightarrow> Inl IndexError
      | Some idx \<Rightarrow>
          if length sq \<noteq> length idx then Inl ValueError
          else Inr (s\<lparr>coef := set_cells (coef s) idx sq\<rparr>))"

text \<open>
  The body of the loop of \<^verbatim>\<open>stitchEdges\<close> for one connection record:
  \<^verbatim>\<open>
  if self.con[i].type == 1:
      coef = self.surfs[f1].getCoefEdge(e1).copy()
      if self.con[i].dir == -1:
          coef = coef[::-1]
      self.surfs[f2].setCoefEdge(e2,coef)
  \<close>
\<close>

definition stitch_record :: "edge \<Rightarrow> surf list \<Rightarrow> error + surf list" where
  "stitch_record c ss =
     (if type c = 1 then
        (case py_index (length ss) (f1 c) of
           None \<Rightarrow> Inl IndexError
         | Some p1 \<Rightarrow>
            (case getCoefEdge (ss ! p1) (e1 c) of
               Inl err \<Rightarrow> Inl err
             | Inr cf \<Rightarrow>
                (let cf' = (if dir c = - 1 then rev cf else cf) in
                 case py_index (length ss) (f2 c) of
                   None \<Rightarrow> Inl IndexError
                 | Some p2 \<Rightarrow>
                    (case setCoefEdge (ss ! p2) (e2 c) cf' of
                       Inl err \<Rightarrow> Inl err
                     | Inr s2 \<Rightarrow> Inr (ss[p2 := s2])))))
      else Inr ss)"

text \<open>
  The loop over \<^verbatim>\<open>self.con\<close>. The patches are changed in place, so the result is the
  exception raised, if any, together with the patches as they are when the loop ends.
\<close>

fun stitchEdges_loop :: "edge list \<Rightarrow> surf list \<Rightarrow> error option \<times> surf list" where
  "stitchEdges_loop [] ss = (None, ss)"
| "stitchEdges_loop (c # cs) ss =
     (case stitch_record c ss of
        Inl err \<Rightarrow> (Some err, ss)
      | Inr ss' \<Rightarrow> stitchEdges_loop cs ss')"

text \<open>\<^verbatim>\<open>stitchEdges(self)\<close>; \<^verbatim>\<open>len(self.con)\<close> raises when no connectivity is set.\<close>

definition stitchEdges :: "pyGeo \<Rightarrow> error option \<times> pyGeo" where
  "stitchEdges g =
     (case con g of
        None \<Rightarrow> (Some TypeError, g)
      | Some cs \<Rightarrow> (case stitchEdges_loop cs (surfs g) of (r, ss) \<Rightarrow> (r, g\<lparr>surfs := ss\<rparr>)))"

subsection \<open>Notions for stating the properties of the stitch operation\<close>

text \<open>
  The control points of an edge of a patch, as cells \<open>(patch, (i, j))\<close> of the model, and
  the control-point sequence along an edge.
\<close>

definition edge_cells :: "surf list \<Rightarrow> int \<Rightarrow> int \<Rightarrow> (nat \<times> nat \<times> nat) set" where
  "edge_cells ss f e =
     (case py_index (length ss) f of
        None \<Rightarrow> {}
      | Some p \<Rightarrow> (case edge_idx (ss ! p) e of None \<Rightarrow> {} | Some idx \<Rightarrow> (\<lambda>k. (p, k)) ` set idx))"

definition edge_seq :: "surf list \<Rightarrow> int \<Rightarrow> int \<Rightarrow> error + point list" where
  "edge_seq ss f e =
     (case py_index (length ss) f of None \<Rightarrow> Inl IndexError | Some p \<Rightarrow> getCoefEdge (ss ! p) e)"

text \<open>Two lists of patches that differ in the control points only.\<close>

definition same_shape :: "surf list \<Rightarrow> surf list \<Rightarrow> bool" where
  "same_shape ss ss' \<longleftrightarrow>
     length ss' = length ss \<and>
     (\<forall>p < length ss. ss' ! p = (ss ! p)\<lparr>coef := coef (ss' ! p)\<rparr>)"

definition slave_cells :: "surf list \<Rightarrow> edge \<Rightarrow> (nat \<times> nat \<times> nat) set" where
  "slave_cells ss c = (if type c = 1 then edge_cells ss (f2 c) (e2 c) else {})"

definition master_cells :: "surf list \<Rightarrow> edge \<Rightarrow> (nat \<times> nat \<times> nat) set" where
  "master_cells ss c = (if type c = 1 then edge_cells ss (f1 c) (e1 c) else {})"

definition cells_eq_off :: "(nat \<times> nat \<times> nat) set \<Rightarrow> surf list \<Rightarrow> surf list \<Rightarrow> bool" where
  "cells_eq_off X ss ss' \<longleftrightarrow>
     same_shape ss ss' \<and>
     (\<forall>p k. p < length ss \<longrightarrow> (p, k) \<notin> X \<longrightarrow> coef (ss' ! p) k = coef (ss ! p) k)"

text \<open>
  A stitched record is satisfied when the slave edge carries the master edge's sequence,
  reversed when the direction is \<open>- 1\<close>.
\<close>

definition stitched :: "edge \<Rightarrow> surf list \<Rightarrow> bool" where
  "stitched c ss =
     (case edge_seq ss (f1 c) (e1 c) of
        Inl err \<Rightarrow> False
      | Inr m \<Rightarrow> edge_seq ss (f2 c) (e2 c) = Inr (if dir c = - 1 then rev m else m))"

text \<open>
  The records of a list do not disturb each other when the slave edge of a stitched record
  shares no control point with its own master edge, and the slave edge of a record listed
  later shares none with the master edge or the slave edge of a record listed before it.
\<close>

fun stitch_separate :: "surf list \<Rightarrow> edge list \<Rightarrow> bool" where
  "stitch_separate ss [] = True"
| "stitch_separate ss (c # cs) =
     (master_cells ss c \<inter> slave_cells ss c = {} \<and>
      (\<forall>c' \<in> set cs. slave_cells ss c' \<inter> (master_cells ss c \<union> slave_cells ss c) = {}) \<and>
      stitch_separate ss cs)"

definition stitch_separate_geo :: "pyGeo \<Rightarrow> bool" where
  "stitch_separate_geo g = (case con g of None \<Rightarrow> False | Some cs \<Rightarrow> stitch_separate (surfs g) cs)"


subsection \<open>Sample patches and connectivities\<close>

text \<open>
  A flat bilinear patch at height \<open>z\<close> with \<open>2 \<times> 2\<close> control points, and the records
  as \<^verbatim>\<open>calcEdgeConnectivity\<close> writes them (\<^verbatim>\<open>Nctl\<close> 10; \<^verbatim>\<open>dof\<close> 7 and continuity 0
  for a joined edge, \<^verbatim>\<open>dof\<close> 3 for a mirror edge).
\<close>

definition flat_patch :: "real \<Rightarrow> surf" where
  "flat_patch z =
     \<lparr>Nctlu = 2, Nctlv = 2, coef = (\<lambda>(i, j). (real i, real j, z)),
      tu = [0, 0, 1, 1], tv = [0, 0, 1, 1],
      edge_con = [None, None, None, None], master_edge = [True, True, True, True],
      edge_dir = [1, 1, 1, 1], edge_type = [0, 0, 0, 0],
      master_node = [None, None, None, None], node_con = [Slaves [], Slaves [], Slaves [], Slaves []]\<rparr>"

definition joined_edge :: "int \<Rightarrow> int \<Rightarrow> int \<Rightarrow> int \<Rightarrow> int \<Rightarrow> int \<Rightarrow> edge" where
  "joined_edge a ea b eb d g =
     \<lparr>type = 1, f1 = a, e1 = ea, dg = g, Nctl = 10, dof = 7, cont = 0, dir = d, f2 = b, e2 = eb\<rparr>"

definition mirror_edge :: "int \<Rightarrow> int \<Rightarrow> int \<Rightarrow> edge" where
  "mirror_edge a ea g =
     \<lparr>type = 0, f1 = a, e1 = ea, dg = g, Nctl = 10, dof = 3, cont = - 1, dir = 1, f2 = - 1, e2 = - 1\<rparr>"

text \<open>
  Two patches joined along one edge in reversed sense; every edge of the two patches is
  in exactly one record.
\<close>

definition two_patches :: pyGeo where
  "two_patches =
     \<lparr>surfs = [flat_patch 0, flat_patch 1], nPatch = 2,
      con = Some [joined_edge 0 1 1 0 (- 1) 0,
                  mirror_edge 0 0 0, mirror_edge 0 2 1, mirror_edge 0 3 1,
                  mirror_edge 1 1 0, mirror_edge 1 2 2, mirror_edge 1 3 2]\<rparr>"

text \<open>
  Three patches: the edges 0 and 2 of patch 2, which meet in its corner 0, are the slave
  edges of patch 0 and of patch 1. Every edge is in exactly one record.
\<close>

definition corner_clash :: pyGeo where
  "corner_clash =
     \<lparr>surfs = [flat_patch 0, flat_patch 1, flat_patch 2], nPatch = 3,
      con = Some [joined_edge 0 0 2 0 1 0, joined_edge 1 2 2 2 1 1,
                  mirror_edge 0 1 0, mirror_edge 0 2 2, mirror_edge 0 3 2,
                  mirror_edge 1 0 3, mirror_edge 1 1 3, mirror_edge 1 3 1,
                  mirror_edge 2 1 0, mirror_edge 2 3 1]\<rparr>"


subsection \<open>Lemmas on the stitch operation\<close>

lemma distinct_edge_idx: "edge_idx s e = Some idx \<Longrightarrow> distinct idx"
  by (auto simp: edge_idx_def distinct_map inj_on_def split: if_splits)

lemma set_cells_other: "k \<notin> set idx \<Longrightarrow> set_cells c idx sq k = c k"
  by (simp add: set_cells_def map_of_eq_None_iff[THEN iffD2] split: option.splits)
    (metis in_set_zipE map_of_SomeD)

lemma set_cells_map:
  "distinct idx \<Longrightarrow> length sq = length idx \<Longrightarrow> map (set_cells c idx sq) idx = sq"
  by (rule nth_equalityI) (simp_all add: set_cells_def map_of_zip_nth)


lemma edge_idx_coef_upd [simp]: "edge_idx (s\<lparr>coef := c\<rparr>) e = edge_idx s e"
  by (simp add: edge_idx_def)

lemma py_index_less: "py_index n i = Some p \<Longrightarrow> p < n"
  by (auto simp: py_index_def split: if_splits)

lemma same_shape_refl [simp]: "same_shape ss ss"
  by (simp add: same_shape_def)

lemma same_shape_trans: "same_shape a b \<Longrightarrow> same_shape b c \<Longrightarrow> same_shape a c"
  unfolding same_shape_def
  by (metis (no_types, lifting) surf.surjective surf.update_convs(3))

lemma same_shape_edge_idx:
  "same_shape ss ss' \<Longrightarrow> p < length ss \<Longrightarrow> edge_idx (ss' ! p) e = edge_idx (ss ! p) e"
  unfolding same_shape_def by (metis edge_idx_coef_upd)

lemma same_shape_edge_cells: "same_shape ss ss' \<Longrightarrow> edge_cells ss' f e = edge_cells ss f e"
proof -
  assume h: "same_shape ss ss'"
  then have len: "length ss' = length ss" by (simp add: same_shape_def)
  show ?thesis
    unfolding edge_cells_def len
    by (auto split: option.splits simp: same_shape_edge_idx[OF h] dest: py_index_less)
qed

lemma same_shape_slave_cells: "same_shape ss ss' \<Longrightarrow> slave_cells ss' c = slave_cells ss c"
  by (simp add: slave_cells_def same_shape_edge_cells)

lemma same_shape_master_cells: "same_shape ss ss' \<Longrightarrow> master_cells ss' c = master_cells ss c"
  by (simp add: master_cells_def same_shape_edge_cells)

lemma cells_eq_off_refl [simp]: "cells_eq_off X ss ss"
  by (simp add: cells_eq_off_def)

lemma cells_eq_off_trans:
  "cells_eq_off X a b \<Longrightarrow> cells_eq_off Y b c \<Longrightarrow> cells_eq_off (X \<union> Y) a c"
proof -
  assume x: "cells_eq_off X a b" and y: "cells_eq_off Y b c"
  then have sh: "same_shape a c" and len: "length b = length a"
    by (auto simp: cells_eq_off_def intro: same_shape_trans) (simp add: same_shape_def)
  have "coef (c ! p) k = coef (a ! p) k" if "p < length a" and "(p, k) \<notin> X \<union> Y" for p k
  proof -
    from x that have "coef (b ! p) k = coef (a ! p) k"
      unfolding cells_eq_off_def by blast
    moreover from that len have "p < length b" and "(p, k) \<notin> Y"
      by simp_all
    with y have "coef (c ! p) k = coef (b ! p) k"
      unfolding cells_eq_off_def by blast
    ultimately show ?thesis by simp
  qed
  with sh show ?thesis
    unfolding cells_eq_off_def by blast
qed

lemma cells_eq_off_mono: "cells_eq_off X a b \<Longrightarrow> X \<subseteq> Y \<Longrightarrow> cells_eq_off Y a b"
  unfolding cells_eq_off_def by blast

lemma stitch_record_frame:
  assumes "stitch_record c ss = Inr ss'"
  shows "cells_eq_off (slave_cells ss c) ss ss'"
proof (cases "type c = 1")
  case False
  with assms show ?thesis by (simp add: stitch_record_def)
next
  case True
  from assms True obtain p1 cf p2 s2 where
    p1: "py_index (length ss) (f1 c) = Some p1" and
    cf: "getCoefEdge (ss ! p1) (e1 c) = Inr cf" and
    p2: "py_index (length ss) (f2 c) = Some p2" and
    s2: "setCoefEdge (ss ! p2) (e2 c) (if dir c = - 1 then rev cf else cf) = Inr s2" and
    ss': "ss' = ss[p2 := s2]"
    by (auto simp: stitch_record_def Let_def split: option.splits sum.splits)
  from s2 obtain idx where
    idx: "edge_idx (ss ! p2) (e2 c) = Some idx" and
    s2': "s2 = (ss ! p2)\<lparr>coef := set_cells (coef (ss ! p2)) idx (if dir c = - 1 then rev cf else cf)\<rparr>"
    by (auto simp: setCoefEdge_def split: option.splits if_splits)
  have lt: "p2 < length ss" using p2 by (rule py_index_less)
  have shape: "same_shape ss ss'"
    unfolding same_shape_def ss' using lt s2'
    by (auto simp: nth_list_update)
  have cells: "slave_cells ss c = (\<lambda>k. (p2, k)) ` set idx"
    using True p2 idx by (simp add: slave_cells_def edge_cells_def)
  show ?thesis
    unfolding cells_eq_off_def
  proof (intro conjI allI impI)
    show "same_shape ss ss'" by (rule shape)
  next
    fix p k assume "p < length ss" and nin: "(p, k) \<notin> slave_cells ss c"
    show "coef (ss' ! p) k = coef (ss ! p) k"
    proof (cases "p = p2")
      case False
      then show ?thesis by (simp add: ss')
    next
      case True
      with nin cells have "k \<notin> set idx" by auto
      with True lt show ?thesis
        by (simp add: ss' s2' set_cells_other)
    qed
  qed
qed

lemma stitchEdges_loop_frame:
  "cells_eq_off (\<Union>c \<in> set cs. slave_cells ss c) ss (snd (stitchEdges_loop cs ss))"
proof (induction cs arbitrary: ss)
  case Nil
  show ?case by simp
next
  case (Cons c cs)
  show ?case
  proof (cases "stitch_record c ss")
    case (Inl err)
    then show ?thesis by simp
  next
    case (Inr ss1)
    have f1: "cells_eq_off (slave_cells ss c) ss ss1"
      using Inr by (rule stitch_record_frame)
    then have sh: "same_shape ss ss1" by (simp add: cells_eq_off_def)
    have "cells_eq_off (\<Union>c \<in> set cs. slave_cells ss1 c) ss1 (snd (stitchEdges_loop cs ss1))"
      by (rule Cons.IH)
    then have f2: "cells_eq_off (\<Union>c \<in> set cs. slave_cells ss c) ss1 (snd (stitchEdges_loop cs ss1))"
      by (simp add: same_shape_slave_cells[OF sh])
    from cells_eq_off_trans[OF f1 f2] Inr show ?thesis
      by simp
  qed
qed

lemma cells_eq_off_edge_seq:
  assumes "cells_eq_off X ss ss'" and "edge_cells ss f e \<inter> X = {}"
  shows "edge_seq ss' f e = edge_seq ss f e"
proof (cases "py_index (length ss) f")
  case None
  with assms(1) show ?thesis
    by (simp add: edge_seq_def cells_eq_off_def same_shape_def)
next
  case (Some p)
  then have lt: "p < length ss" by (rule py_index_less)
  from assms(1) have sh: "same_shape ss ss'" and len: "length ss' = length ss"
    by (simp_all add: cells_eq_off_def same_shape_def)
  show ?thesis
  proof (cases "edge_idx (ss ! p) e")
    case None
    with Some lt show ?thesis
      by (simp add: edge_seq_def len getCoefEdge_def same_shape_edge_idx[OF sh])
  next
    case (Some idx)
    with \<open>py_index (length ss) f = Some p\<close> assms(2)
    have "\<forall>k \<in> set idx. (p, k) \<notin> X"
      by (auto simp: edge_cells_def)
    with assms(1) lt have "\<forall>k \<in> set idx. coef (ss' ! p) k = coef (ss ! p) k"
      unfolding cells_eq_off_def by blast
    then have "map (coef (ss' ! p)) idx = map (coef (ss ! p)) idx"
      by simp
    with Some \<open>py_index (length ss) f = Some p\<close> lt show ?thesis
      by (simp add: edge_seq_def len getCoefEdge_def same_shape_edge_idx[OF sh])
  qed
qed

lemma stitch_separate_shape:
  "same_shape ss ss' \<Longrightarrow> stitch_separate ss' cs = stitch_separate ss cs"
  by (induction cs) (simp_all add: same_shape_slave_cells same_shape_master_cells)

lemma stitch_record_stitched:
  assumes rec: "stitch_record c ss = Inr ss'" and ty: "type c = 1"
    and dis: "master_cells ss c \<inter> slave_cells ss c = {}"
  shows "stitched c ss'"
proof -
  from rec ty obtain p1 cf p2 s2 where
    p1: "py_index (length ss) (f1 c) = Some p1" and
    cf: "getCoefEdge (ss ! p1) (e1 c) = Inr cf" and
    p2: "py_index (length ss) (f2 c) = Some p2" and
    s2: "setCoefEdge (ss ! p2) (e2 c) (if dir c = - 1 then rev cf else cf) = Inr s2" and
    ss': "ss' = ss[p2 := s2]"
    by (auto simp: stitch_record_def Let_def split: option.splits sum.splits)
  let ?cf = "if dir c = - 1 then rev cf else cf"
  from s2 obtain idx where
    idx: "edge_idx (ss ! p2) (e2 c) = Some idx" and
    len: "length ?cf = length idx" and
    s2': "s2 = (ss ! p2)\<lparr>coef := set_cells (coef (ss ! p2)) idx ?cf\<rparr>"
    by (auto simp: setCoefEdge_def split: option.splits if_splits)
  have lt: "p2 < length ss" using p2 by (rule py_index_less)
  have fr: "cells_eq_off (slave_cells ss c) ss ss'"
    using rec by (rule stitch_record_frame)
  have "edge_cells ss (f1 c) (e1 c) \<inter> slave_cells ss c = {}"
    using dis ty by (simp add: master_cells_def)
  with fr have "edge_seq ss' (f1 c) (e1 c) = edge_seq ss (f1 c) (e1 c)"
    by (rule cells_eq_off_edge_seq)
  then have m: "edge_seq ss' (f1 c) (e1 c) = Inr cf"
    using p1 cf by (simp add: edge_seq_def)
  have "map (set_cells (coef (ss ! p2)) idx ?cf) idx = ?cf"
    using distinct_edge_idx[OF idx] len by (rule set_cells_map)
  then have sl: "edge_seq ss' (f2 c) (e2 c) = Inr ?cf"
    using p2 lt idx by (simp add: edge_seq_def ss' s2' getCoefEdge_def)
  from m sl show ?thesis
    by (simp add: stitched_def)
qed

lemma stitchEdges_loop_stitched:
  "stitchEdges_loop cs ss = (None, ss') \<Longrightarrow> stitch_separate ss cs \<Longrightarrow>
   c \<in> set cs \<Longrightarrow> type c = 1 \<Longrightarrow> stitched c ss'"
proof (induction cs arbitrary: ss)
  case Nil
  then show ?case by simp
next
  case (Cons d cs)
  from Cons.prems(1) obtain ss1 where
    d: "stitch_record d ss = Inr ss1" and rest: "stitchEdges_loop cs ss1 = (None, ss')"
    by (auto split: sum.splits)
  have fr1: "cells_eq_off (slave_cells ss d) ss ss1"
    using d by (rule stitch_record_frame)
  then have sh: "same_shape ss ss1" by (simp add: cells_eq_off_def)
  from Cons.prems(2) have sep: "stitch_separate ss1 cs"
    by (simp add: stitch_separate_shape[OF sh])
  show ?case
  proof (cases "c \<in> set cs")
    case True
    with rest sep Cons.prems(4) show ?thesis
      by (simp add: Cons.IH)
  next
    case False
    with Cons.prems(3) have cd: "c = d" by simp
    from Cons.prems(2) have dis: "master_cells ss d \<inter> slave_cells ss d = {}"
      and later: "\<forall>c' \<in> set cs. slave_cells ss c' \<inter> (master_cells ss d \<union> slave_cells ss d) = {}"
      by simp_all
    from d Cons.prems(4) dis have st1: "stitched d ss1"
      unfolding cd by (rule stitch_record_stitched)
    have fr: "cells_eq_off (\<Union>c' \<in> set cs. slave_cells ss c') ss1 ss'"
      using stitchEdges_loop_frame[where cs = cs and ss = ss1] rest
      by (simp add: same_shape_slave_cells[OF sh])
    from Cons.prems(4) have mc: "master_cells ss d = edge_cells ss (f1 d) (e1 d)"
      and sc: "slave_cells ss d = edge_cells ss (f2 d) (e2 d)"
      by (simp_all add: master_cells_def slave_cells_def cd)
    from later have
      "edge_cells ss (f1 d) (e1 d) \<inter> (\<Union>c' \<in> set cs. slave_cells ss c') = {}" and
      "edge_cells ss (f2 d) (e2 d) \<inter> (\<Union>c' \<in> set cs. slave_cells ss c') = {}"
      unfolding mc sc by blast+
    then have
      "edge_cells ss1 (f1 d) (e1 d) \<inter> (\<Union>c' \<in> set cs. slave_cells ss c') = {}" and
      "edge_cells ss1 (f2 d) (e2 d) \<inter> (\<Union>c' \<in> set cs. slave_cells ss c') = {}"
      by (simp_all add: same_shape_edge_cells[OF sh])
    then have "edge_seq ss' (f1 d) (e1 d) = edge_seq ss1 (f1 d) (e1 d)"
      and "edge_seq ss' (f2 d) (e2 d) = edge_seq ss1 (f2 d) (e2 d)"
      using fr by (simp_all add: cells_eq_off_edge_seq)
    with st1 show ?thesis
      unfolding stitched_def cd by (simp split: sum.splits)
  qed
qed




lemma two_patches_run:
  "stitchEdges two_patches =
     (None, two_patches\<lparr>surfs := [flat_patch 0,
        (flat_patch 1)\<lparr>coef := set_cells (coef (flat_patch 1)) [(0, 0), (1, 0)] [(1, 1, 0), (0, 1, 0)]\<rparr>]\<rparr>)"
  by (simp add: two_patches_def stitchEdges_def stitch_record_def py_index_def getCoefEdge_def
      setCoefEdge_def edge_idx_def flat_patch_def joined_edge_def mirror_edge_def upt_conv_Cons)

lemma mirror_cells [simp]:
  "slave_cells ss (mirror_edge a ea g) = {}" "master_cells ss (mirror_edge a ea g) = {}"
  by (simp_all add: slave_cells_def master_cells_def mirror_edge_def)

lemma two_patches_cells:
  "master_cells [flat_patch 0, flat_patch 1] (joined_edge 0 1 1 0 (- 1) 0) = {(0, 0, 1), (0, 1, 1)}"
  "slave_cells [flat_patch 0, flat_patch 1] (joined_edge 0 1 1 0 (- 1) 0) = {(1, 0, 0), (1, 1, 0)}"
  by (simp_all add: master_cells_def slave_cells_def edge_cells_def py_index_def edge_idx_def
      flat_patch_def joined_edge_def upt_conv_Cons)

lemma two_patches_separate: "stitch_separate_geo two_patches"
  by (simp add: two_patches_def stitch_separate_geo_def two_patches_cells)

subsection \<open>The claims on the stitch operation\<close>

text \<open>
  Claim C5, as stated, fails where two slave edges of one patch meet in a corner: in
  \<open>corner_clash\<close> the edge 0 of patch 2 is the slave of the edge 0 of patch 0 (direction
  \<open>+ 1\<close>), and the later record overwrites the shared corner from patch 1. The operation
  runs without error, and the slave edge's sequence differs from its master's.
\<close>

theorem stitchEdges_corner_counterexample:
  "fst (stitchEdges corner_clash) = None \<and>
   con corner_clash \<noteq> None \<and> joined_edge 0 0 2 0 1 0 \<in> set (the (con corner_clash)) \<and>
   edge_seq (surfs (snd (stitchEdges corner_clash))) 2 0 \<noteq>
   edge_seq (surfs (snd (stitchEdges corner_clash))) 0 0"
  by (simp add: corner_clash_def stitchEdges_def stitch_record_def py_index_def getCoefEdge_def setCoefEdge_def edge_idx_def
      set_cells_def flat_patch_def joined_edge_def mirror_edge_def edge_seq_def upt_conv_Cons)

text \<open>
  Claim C5, amended: when the Stitch operation has run without error on a connectivity in
  which the slave edge of a stitched record shares no control point with its own master
  edge nor with the master or slave edge of a stitched record listed before it, then for
  every stitched (type 1) record the slave edge's control-point sequence equals the
  reverse of the master edge's sequence when the direction is \<open>- 1\<close>, and the master
  edge's sequence unreversed when the direction is \<open>+ 1\<close>.
\<close>

theorem stitchEdges_slave_matches_master:
  assumes run: "stitchEdges g = (None, g')"
    and sep: "stitch_separate_geo g"
    and c: "con g = Some cs" "c \<in> set cs" "type c = 1"
  shows "\<exists>m. edge_seq (surfs g') (f1 c) (e1 c) = Inr m \<and>
             (dir c = - 1 \<longrightarrow> edge_seq (surfs g') (f2 c) (e2 c) = Inr (rev m)) \<and>
             (dir c = 1 \<longrightarrow> edge_seq (surfs g') (f2 c) (e2 c) = Inr m)"
proof -
  from run c(1) have loop: "stitchEdges_loop cs (surfs g) = (None, surfs g')"
    by (auto simp: stitchEdges_def split: prod.splits)
  from sep c(1) have "stitch_separate (surfs g) cs"
    by (simp add: stitch_separate_geo_def)
  with loop have "stitched c (surfs g')"
    using c(2,3) by (rule stitchEdges_loop_stitched)
  then show ?thesis
    by (auto simp: stitched_def split: sum.splits)
qed

text \<open>The amended claim C5 at \<open>two_patches\<close>, whose joined edge has direction \<open>- 1\<close>.\<close>

theorem stitchEdges_slave_matches_master_witness:
  "stitchEdges two_patches = (None, snd (stitchEdges two_patches)) \<and>
   stitch_separate_geo two_patches \<and>
   joined_edge 0 1 1 0 (- 1) 0 \<in> set (the (con two_patches)) \<and>
   edge_seq (surfs (snd (stitchEdges two_patches))) 0 1 = Inr [(0, 1, 0), (1, 1, 0)] \<and>
   edge_seq (surfs (snd (stitchEdges two_patches))) 1 0 = Inr (rev [(0, 1, 0), (1, 1, 0)])"
proof -
  let ?c = "joined_edge 0 1 1 0 (- 1) 0"
  have run: "stitchEdges two_patches = (None, snd (stitchEdges two_patches))"
    by (simp add: two_patches_run)
  have cs: "con two_patches = Some (the (con two_patches))"
    by (simp add: two_patches_def)
  have mem: "?c \<in> set (the (con two_patches))"
    by (simp add: two_patches_def)
  have ty: "type ?c = 1" and d: "dir ?c = - 1" and fe: "f1 ?c = 0" "e1 ?c = 1" "f2 ?c = 1" "e2 ?c = 0"
    by (simp_all add: joined_edge_def)
  have m: "edge_seq (surfs (snd (stitchEdges two_patches))) 0 1 = Inr [(0, 1, 0), (1, 1, 0)]"
    by (simp add: two_patches_run edge_seq_def py_index_def getCoefEdge_def edge_idx_def
        flat_patch_def set_cells_def upt_conv_Cons)
  from stitchEdges_slave_matches_master [OF run two_patches_separate cs mem ty]
  have "edge_seq (surfs (snd (stitchEdges two_patches))) 1 0 = Inr (rev [(0, 1, 0), (1, 1, 0)])"
    unfolding d fe m by simp
  with run two_patches_separate mem m show ?thesis
    by simp
qed






section \<open>The connectivity table: writing and reading\<close>

text \<open>
  An operation that may raise is a value of \<open>error + 'a\<close>; \<open>err_bind\<close> runs the next
  statement when the previous one did not raise.
\<close>

definition err_bind :: "error + 'a \<Rightarrow> ('a \<Rightarrow> error + 'b) \<Rightarrow> error + 'b" where
  "err_bind x f = (case x of Inl err \<Rightarrow> Inl err | Inr v \<Rightarrow> f v)"

text \<open>
  The format \<^verbatim>\<open>%3d\<close>: the decimal digits of an integer, with a minus sign when it is
  negative, padded with blanks on the left to three characters.
\<close>

definition digit_char :: "nat \<Rightarrow> char" where
  "digit_char d = ''0123456789'' ! d"

text \<open>
  \<^verbatim>\<open>list.index(x)\<close>: the first position of \<open>x\<close> in a list, if there is one.
\<close>

fun list_index :: "'a list \<Rightarrow> 'a \<Rightarrow> nat option" where
  "list_index [] x = None"
| "list_index (y # ys) x = (if y = x then Some 0 else map_option Suc (list_index ys x))"

definition digit_val :: "char \<Rightarrow> nat option" where
  "digit_val c = list_index ''0123456789'' c"

function str_nat :: "nat \<Rightarrow> string" where
  "str_nat n = (if n < 10 then [digit_char n] else str_nat (n div 10) @ [digit_char (n mod 10)])"
  by pat_completeness auto
termination
  by (relation "measure id") auto

declare str_nat.simps [simp del]

definition str_int :: "int \<Rightarrow> string" where
  "str_int i = (if i < 0 then CHR ''-'' # str_nat (nat (- i)) else str_nat (nat i))"

definition fmt3d :: "int \<Rightarrow> string" where
  "fmt3d i = replicate (3 - length (str_int i)) CHR '' '' @ str_int i"

text \<open>
  The format string of \<^verbatim>\<open>write_info\<close>, which \<^verbatim>\<open>calcEdgeConnectivity\<close> uses for its
  \<^verbatim>\<open>init_string\<close> too, applied to its eleven integers:
  \<^verbatim>\<open>'%3d        |%3d     %3d    |%3d   | %3d  |  %3d       | %3d  | %3d           | %3d  | %3d     %3d      |\n'\<close>
\<close>

definition fmt_row ::
  "int \<Rightarrow> int \<Rightarrow> int \<Rightarrow> int \<Rightarrow> int \<Rightarrow> int \<Rightarrow> int \<Rightarrow> int \<Rightarrow> int \<Rightarrow> int \<Rightarrow> int \<Rightarrow> string" where
  "fmt_row a0 a1 a2 a3 a4 a5 a6 a7 a8 a9 a10 =
     fmt3d a0 @ ''        |'' @ fmt3d a1 @ ''     '' @ fmt3d a2 @ ''    |'' @
     fmt3d a3 @ ''   | '' @ fmt3d a4 @ ''  |  '' @ fmt3d a5 @ ''       | '' @
     fmt3d a6 @ ''  | '' @ fmt3d a7 @ ''           | '' @ fmt3d a8 @ ''  | '' @
     fmt3d a9 @ ''     '' @ fmt3d a10 @ ''      |'' @ [CHR 0x0A]"

text \<open>
  \<^verbatim>\<open>edge.write_info(self, i, handle)\<close> writes the row of the record with the index \<open>i\<close>.
\<close>

definition write_info :: "edge \<Rightarrow> int \<Rightarrow> string" where
  "write_info c i =
     fmt_row i (f1 c) (e1 c) (type c) (dof c) (cont c) (dir c) (dg c) (Nctl c) (f2 c) (e2 c)"

text \<open>
  \<^verbatim>\<open>string.split\<close>: the maximal runs of characters that are not whitespace.
  \<^verbatim>\<open>line.replace('|', ' ')\<close> is \<open>replace_bar\<close>.
\<close>

definition is_space :: "char \<Rightarrow> bool" where
  "is_space c \<longleftrightarrow> c = CHR '' '' \<or> c = CHR 0x09 \<or> c = CHR 0x0A \<or> c = CHR 0x0B \<or> c = CHR 0x0C \<or> c = CHR 0x0D"

fun split_acc :: "string \<Rightarrow> string \<Rightarrow> string list" where
  "split_acc cur [] = (if cur = [] then [] else [rev cur])"
| "split_acc cur (c # cs) =
     (if is_space c then (if cur = [] then split_acc [] cs else rev cur # split_acc [] cs)
      else split_acc (c # cur) cs)"

definition string_split :: "string \<Rightarrow> string list" where
  "string_split s = split_acc [] s"

definition replace_bar :: "string \<Rightarrow> string" where
  "replace_bar s = map (\<lambda>c. if c = CHR ''|'' then CHR '' '' else c) s"

text \<open>
  \<^verbatim>\<open>int(s)\<close> on a token of \<^verbatim>\<open>string.split\<close> (which holds no whitespace): an optional
  sign and at least one decimal digit; anything else raises \<^verbatim>\<open>ValueError\<close>.
  \<open>aux_int aux k\<close> is \<^verbatim>\<open>int(aux[k])\<close>.
\<close>

fun parse_digits :: "nat \<Rightarrow> string \<Rightarrow> nat option" where
  "parse_digits acc [] = Some acc"
| "parse_digits acc (c # cs) =
     (case digit_val c of None \<Rightarrow> None | Some d \<Rightarrow> parse_digits (10 * acc + d) cs)"

definition py_int :: "string \<Rightarrow> error + int" where
  "py_int s =
     (case s of
        [] \<Rightarrow> Inl ValueError
      | c # r \<Rightarrow>
          if c = CHR ''-'' \<or> c = CHR ''+'' then
            (if r = [] then Inl ValueError
             else case parse_digits 0 r of
                    None \<Rightarrow> Inl ValueError
                  | Some n \<Rightarrow> Inr (if c = CHR ''-'' then - int n else int n))
          else (case parse_digits 0 s of None \<Rightarrow> Inl ValueError | Some n \<Rightarrow> Inr (int n)))"

definition aux_int :: "string list \<Rightarrow> nat \<Rightarrow> error + int" where
  "aux_int aux k = (if k < length aux then py_int (aux ! k) else Inl IndexError)"

text \<open>
  \<^verbatim>\<open>edge.__init__(self, init_string)\<close>, the only place where a connection record is
  made. The fields are read in the order of the source. A symmetry record (type 0) takes
  \<^verbatim>\<open>dof\<close> from the row and fixes continuity \<open>- 1\<close>, direction 1 and \<open>f2 = e2 = - 1\<close>; any
  other record fixes \<^verbatim>\<open>dof\<close> 7 and takes the rest from the row.
\<close>

definition edge_init :: "string \<Rightarrow> error + edge" where
  "edge_init init_string =
     (let aux = string_split init_string in
      err_bind (aux_int aux 3) (\<lambda>ty.
      err_bind (aux_int aux 1) (\<lambda>a.
      err_bind (aux_int aux 2) (\<lambda>ea.
      err_bind (aux_int aux 7) (\<lambda>g.
      err_bind (aux_int aux 8) (\<lambda>n.
        if ty = 0 then
          err_bind (aux_int aux 4) (\<lambda>d.
            Inr \<lparr>type = ty, f1 = a, e1 = ea, dg = g, Nctl = n, dof = d, cont = - 1, dir = 1,
                 f2 = - 1, e2 = - 1\<rparr>)
        else
          err_bind (aux_int aux 5) (\<lambda>ct.
          err_bind (aux_int aux 6) (\<lambda>dr.
          err_bind (aux_int aux 9) (\<lambda>b.
          err_bind (aux_int aux 10) (\<lambda>eb.
            Inr \<lparr>type = ty, f1 = a, e1 = ea, dg = g, Nctl = n, dof = 7, cont = ct, dir = dr,
                 f2 = b, e2 = eb\<rparr>))))))))))"

text \<open>
  \<^verbatim>\<open>writeEdgeConnectivity(self, file_name)\<close>: the header line, then one row per record.
  The result is the exception raised, if any, and the text written to the file.
\<close>

definition header_line :: string where
  "header_line =
     ''Connection | Face    Edge  | Type | dof  | Continutiy | Dir? | Driving Group | Nctl | Face    Edge     |'' @ [CHR 0x0A]"

fun write_records :: "nat \<Rightarrow> edge list \<Rightarrow> string" where
  "write_records i [] = []"
| "write_records i (c # cs) = write_info c (int i) @ write_records (Suc i) cs"

definition writeEdgeConnectivity :: "pyGeo \<Rightarrow> error option \<times> string" where
  "writeEdgeConnectivity g =
     (case con g of
        None \<Rightarrow> (Some TypeError, header_line)
      | Some cs \<Rightarrow> (None, header_line @ write_records 0 cs))"

text \<open>
  The loading part of \<^verbatim>\<open>readEdgeConnectivity\<close>: the lines of the file (each with its
  newline), the bars replaced by blanks, and from the second line on one record per line,
  appended to \<^verbatim>\<open>self.con\<close>. A line that \<^verbatim>\<open>edge\<close> cannot read raises and leaves the
  records read so far.
\<close>

fun lines_acc :: "string \<Rightarrow> string \<Rightarrow> string list" where
  "lines_acc cur [] = (if cur = [] then [] else [rev cur])"
| "lines_acc cur (c # cs) =
     (if c = CHR 0x0A then rev (c # cur) # lines_acc [] cs else lines_acc (c # cur) cs)"

definition py_lines :: "string \<Rightarrow> string list" where
  "py_lines s = lines_acc [] s"

fun read_records :: "string list \<Rightarrow> edge list \<Rightarrow> error option \<times> edge list" where
  "read_records [] acc = (None, acc)"
| "read_records (l # ls) acc =
     (case edge_init l of
        Inl err \<Rightarrow> (Some err, acc)
      | Inr c \<Rightarrow> read_records ls (acc @ [c]))"

definition load_con :: "string \<Rightarrow> error option \<times> edge list" where
  "load_con content = read_records (drop 1 (map replace_bar (py_lines content))) []"

text \<open>
  A record is valid when it has the form \<^verbatim>\<open>edge.__init__\<close> gives every record (lemma
  \<open>edge_init_valid\<close> below); no other code of the sources writes a field of a record.
\<close>

definition edge_valid :: "edge \<Rightarrow> bool" where
  "edge_valid c =
     (if type c = 0 then cont c = - 1 \<and> dir c = 1 \<and> f2 c = - 1 \<and> e2 c = - 1 else dof c = 7)"

text \<open>
  The characters of a formatted integer and the characters of the separators.
\<close>

definition tok_char :: "char \<Rightarrow> bool" where
  "tok_char c \<longleftrightarrow> \<not> is_space c \<and> c \<noteq> CHR ''|''"

definition sep_char :: "char \<Rightarrow> bool" where
  "sep_char c \<longleftrightarrow> is_space c \<or> c = CHR ''|''"

type_synonym 's act = "'s \<Rightarrow> error option \<times> 's"

section \<open>Setting the connectivity in the patches\<close>

text \<open>
  The operations below change the patches in place, one statement after the other, and
  any statement may raise. An action returns the exception raised, if any, and the state
  at that moment; \<open>then_do\<close> runs the second action when the first did not raise.
\<close>

definition then_do :: "'s act \<Rightarrow> 's act \<Rightarrow> 's act" where
  "then_do a b s = (case a s of (None, s') \<Rightarrow> b s' | (Some err, s') \<Rightarrow> (Some err, s'))"

definition skip :: "'s act" where
  "skip s = (None, s)"

fun do_all :: "'s act list \<Rightarrow> 's act" where
  "do_all [] = skip"
| "do_all (a # as) = then_do a (do_all as)"

text \<open>
  Reading and writing an entry of a Python list, and running a statement on the patch
  \<^verbatim>\<open>self.surfs[f]\<close>.
\<close>

definition py_set :: "'a list \<Rightarrow> int \<Rightarrow> 'a \<Rightarrow> error + 'a list" where
  "py_set xs i v = (case py_index (length xs) i of None \<Rightarrow> Inl IndexError | Some k \<Rightarrow> Inr (xs[k := v]))"

definition py_get :: "'a list \<Rightarrow> int \<Rightarrow> error + 'a" where
  "py_get xs i = (case py_index (length xs) i of None \<Rightarrow> Inl IndexError | Some k \<Rightarrow> Inr (xs ! k))"

definition on_surf :: "int \<Rightarrow> (surf \<Rightarrow> error + surf) \<Rightarrow> surf list act" where
  "on_surf f h ss =
     (case py_index (length ss) f of
        None \<Rightarrow> (Some IndexError, ss)
      | Some p \<Rightarrow> (case h (ss ! p) of Inl err \<Rightarrow> (Some err, ss) | Inr s' \<Rightarrow> (None, ss[p := s'])))"

text \<open>
  The assignments to the connectivity attributes of a patch.
\<close>

definition set_edge_con :: "int \<Rightarrow> (int \<times> int) \<Rightarrow> surf \<Rightarrow> error + surf" where
  "set_edge_con e v s = err_bind (py_set (edge_con s) e (Some v)) (\<lambda>xs. Inr (s\<lparr>edge_con := xs\<rparr>))"

definition set_master_edge :: "int \<Rightarrow> bool \<Rightarrow> surf \<Rightarrow> error + surf" where
  "set_master_edge e v s = err_bind (py_set (master_edge s) e v) (\<lambda>xs. Inr (s\<lparr>master_edge := xs\<rparr>))"

definition set_edge_dir :: "int \<Rightarrow> int \<Rightarrow> surf \<Rightarrow> error + surf" where
  "set_edge_dir e v s = err_bind (py_set (edge_dir s) e v) (\<lambda>xs. Inr (s\<lparr>edge_dir := xs\<rparr>))"

definition set_edge_type :: "int \<Rightarrow> int \<Rightarrow> surf \<Rightarrow> error + surf" where
  "set_edge_type e v s = err_bind (py_set (edge_type s) e v) (\<lambda>xs. Inr (s\<lparr>edge_type := xs\<rparr>))"

definition set_master_node :: "int \<Rightarrow> bool \<Rightarrow> surf \<Rightarrow> error + surf" where
  "set_master_node n v s = err_bind (py_set (master_node s) n (Some v)) (\<lambda>xs. Inr (s\<lparr>master_node := xs\<rparr>))"

definition set_node_con :: "int \<Rightarrow> node_con \<Rightarrow> surf \<Rightarrow> error + surf" where
  "set_node_con n v s = err_bind (py_set (node_con s) n v) (\<lambda>xs. Inr (s\<lparr>node_con := xs\<rparr>))"

text \<open>
  The first loop of \<^verbatim>\<open>_setEdgeConnectivity\<close>, for one record: the edge information
  of the first side, and of the second side of a stitched record.
\<close>

definition edge_info :: "edge \<Rightarrow> surf list act" where
  "edge_info c =
     do_all
       ([on_surf (f1 c) (set_edge_con (e1 c) (f2 c, e2 c)),
         on_surf (f1 c) (set_master_edge (e1 c) True),
         on_surf (f1 c) (set_edge_dir (e1 c) (dir c)),
         on_surf (f1 c) (set_edge_type (e1 c) (type c))] @
        (if type c = 1 then
           [on_surf (f2 c) (set_edge_con (e2 c) (f1 c, e1 c)),
            on_surf (f2 c) (set_master_edge (e2 c) False),
            on_surf (f2 c) (set_edge_dir (e2 c) (dir c)),
            on_surf (f2 c) (set_edge_type (e2 c) (type c))]
         else []))"

text \<open>
  \<^verbatim>\<open>_getNodesFromEdge(self, edge)\<close>.
\<close>

definition getNodesFromEdge :: "int \<Rightarrow> int \<times> int" where
  "getNodesFromEdge e =
     (if e = 0 then (0, 1) else if e = 1 then (2, 3) else if e = 2 then (0, 2) else (1, 3))"

definition node_con_at :: "surf list \<Rightarrow> int \<Rightarrow> int \<Rightarrow> error + node_con" where
  "node_con_at ss f n = err_bind (py_get ss f) (\<lambda>s. py_get (node_con s) n)"

definition master_node_at :: "surf list \<Rightarrow> int \<Rightarrow> int \<Rightarrow> error + bool option" where
  "master_node_at ss f n = err_bind (py_get ss f) (\<lambda>s. py_get (master_node s) n)"

text \<open>
  \<^verbatim>\<open>if self.surfs[f1].master_node[n1] == None: self.surfs[f1].master_node[n1] = True\<close>
\<close>

definition mark_master :: "int \<Rightarrow> int \<Rightarrow> surf list act" where
  "mark_master f n ss =
     (case master_node_at ss f n of
        Inl err \<Rightarrow> (Some err, ss)
      | Inr None \<Rightarrow> on_surf f (set_master_node n True) ss
      | Inr (Some b) \<Rightarrow> (None, ss))"

text \<open>
  The loop that follows the back-references until it finds a corner whose
  \<^verbatim>\<open>node_con\<close> is \<^verbatim>\<open>[]\<close>:
  \<^verbatim>\<open>
  while cont:
      if self.surfs[cur_face].node_con[cur_node] == []:
          self.surfs[f2].node_con[n1] = [cur_face,cur_node]
          cont = False
      else:
          cur_face = self.surfs[cur_face].node_con[cur_node][0]
          cur_node = self.surfs[cur_face].node_con[cur_node][1]
  \<close>
  The second assignment of the \<^verbatim>\<open>else\<close> branch reads the entry of the new
  \<^verbatim>\<open>cur_face\<close> at the old \<^verbatim>\<open>cur_node\<close>. An entry that is a list of pairs gives lists
  for \<^verbatim>\<open>cur_face\<close> or \<^verbatim>\<open>cur_node\<close>, and the next indexing raises. The loop need not
  end: the result \<open>None\<close> is a loop that runs forever.
\<close>

partial_function (option) resolve_node :: "surf list \<Rightarrow> int \<Rightarrow> int \<Rightarrow> (error + int \<times> int) option" where
  "resolve_node ss cur_face cur_node =
     (case node_con_at ss cur_face cur_node of
        Inl err \<Rightarrow> Some (Inl err)
      | Inr (Slaves ps) \<Rightarrow>
          if ps = [] then Some (Inr (cur_face, cur_node)) else Some (Inl TypeError)
      | Inr (Slave f n) \<Rightarrow>
          (case node_con_at ss f cur_node of
             Inl err \<Rightarrow> Some (Inl err)
           | Inr (Slaves ps) \<Rightarrow> Some (Inl (if length ps < 2 then IndexError else TypeError))
           | Inr (Slave f' n') \<Rightarrow> resolve_node ss f n'))"

declare resolve_node.simps [code]

text \<open>
  The assignment of the back-reference of the slave corner \<open>(fs, n)\<close>, whose master side
  is the corner \<open>(fm, n_master)\<close>: directly when that corner's \<^verbatim>\<open>node_con\<close> is
  \<^verbatim>\<open>[]\<close>, through the loop otherwise.
\<close>

definition link_node :: "int \<Rightarrow> int \<Rightarrow> int \<Rightarrow> int \<Rightarrow> surf list \<Rightarrow> (error option \<times> surf list) option" where
  "link_node fm n_master fs n ss =
     (case node_con_at ss fm n_master of
        Inl err \<Rightarrow> Some (Some err, ss)
      | Inr (Slaves ps) \<Rightarrow>
          if ps = [] then Some (on_surf fs (set_node_con n (Slave fm n_master)) ss)
          else Some (Some (if length ps < 2 then IndexError else TypeError), ss)
      | Inr (Slave cur_face cur_node) \<Rightarrow>
          (case resolve_node ss cur_face cur_node of
             None \<Rightarrow> None
           | Some (Inl err) \<Rightarrow> Some (Some err, ss)
           | Some (Inr (cf, cn)) \<Rightarrow> Some (on_surf fs (set_node_con n (Slave cf cn)) ss)))"

definition then_opt ::
  "('s \<Rightarrow> (error option \<times> 's) option) \<Rightarrow> ('s \<Rightarrow> (error option \<times> 's) option) \<Rightarrow>
   's \<Rightarrow> (error option \<times> 's) option" where
  "then_opt a b s =
     (case a s of
        None \<Rightarrow> None
      | Some (None, s') \<Rightarrow> b s'
      | Some (Some err, s') \<Rightarrow> Some (Some err, s'))"

definition lift_act :: "'s act \<Rightarrow> 's \<Rightarrow> (error option \<times> 's) option" where
  "lift_act a s = Some (a s)"

text \<open>
  The second loop of \<^verbatim>\<open>_setEdgeConnectivity\<close>, for one record, and the loop.
\<close>

definition node_info :: "edge \<Rightarrow> surf list \<Rightarrow> (error option \<times> surf list) option" where
  "node_info c =
     (let (n1, n2) = getNodesFromEdge (e1 c);
          (n1_master, n2_master) = (if dir c = 1 then (n1, n2) else (n2, n1))
      in then_opt (lift_act (mark_master (f1 c) n1))
        (then_opt (lift_act (mark_master (f1 c) n2))
          (if type c = 1 then
             (let (m1, m2) = getNodesFromEdge (e2 c)
              in then_opt (lift_act (on_surf (f2 c) (set_master_node m1 False)))
                (then_opt (lift_act (on_surf (f2 c) (set_master_node m2 False)))
                  (then_opt (link_node (f1 c) n1_master (f2 c) m1)
                    (link_node (f1 c) n2_master (f2 c) m2))))
           else lift_act skip)))"

fun node_loop :: "edge list \<Rightarrow> surf list \<Rightarrow> (error option \<times> surf list) option" where
  "node_loop [] ss = Some (None, ss)"
| "node_loop (c # cs) ss = then_opt (node_info c) (node_loop cs) ss"

text \<open>
  The last loop: every corner whose \<^verbatim>\<open>node_con\<close> is \<^verbatim>\<open>[]\<close> collects the corners
  whose back-reference it is. \<open>corners n\<close> are the pairs of the two nested
  \<^verbatim>\<open>xrange\<close> loops, in their order.
\<close>

definition corners :: "nat \<Rightarrow> (nat \<times> nat) list" where
  "corners n = concat (map (\<lambda>p. map (\<lambda>k. (p, k)) [0..<4]) [0..<n])"

fun collect_slaves :: "nat \<Rightarrow> nat \<Rightarrow> (nat \<times> nat) list \<Rightarrow> (int \<times> int) list \<Rightarrow> surf list act" where
  "collect_slaves ip j [] ps ss = (None, ss)"
| "collect_slaves ip j ((jp, k) # rest) ps ss =
     (case node_con_at ss (int jp) (int k) of
        Inl err \<Rightarrow> (Some err, ss)
      | Inr y \<Rightarrow>
          if y = Slave (int ip) (int j) then
            (case on_surf (int ip) (set_node_con (int j) (Slaves (ps @ [(int jp, int k)]))) ss of
               (None, ss') \<Rightarrow> collect_slaves ip j rest (ps @ [(int jp, int k)]) ss'
             | (Some err, ss') \<Rightarrow> (Some err, ss'))
          else collect_slaves ip j rest ps ss)"

definition back_node :: "nat \<Rightarrow> nat \<times> nat \<Rightarrow> surf list act" where
  "back_node n = (\<lambda>(ip, j) ss.
     case node_con_at ss (int ip) (int j) of
       Inl err \<Rightarrow> (Some err, ss)
     | Inr x \<Rightarrow> if x = Slaves [] then collect_slaves ip j (corners n) [] ss else (None, ss))"

definition back_propagate :: "nat \<Rightarrow> surf list act" where
  "back_propagate n = do_all (map (back_node n) (corners n))"

text \<open>
  \<^verbatim>\<open>_setEdgeConnectivity(self)\<close>; without a connectivity it calls \<^verbatim>\<open>sys.exit(1)\<close>.
\<close>

definition setEdgeConnectivity :: "pyGeo \<Rightarrow> (error option \<times> pyGeo) option" where
  "setEdgeConnectivity g =
     (case con g of
        None \<Rightarrow> Some (Some SystemExit, g)
      | Some cs \<Rightarrow>
          map_option (\<lambda>(r, ss). (r, g\<lparr>surfs := ss\<rparr>))
            (then_opt (lift_act (do_all (map edge_info cs)))
               (then_opt (node_loop cs) (lift_act (back_propagate (nPatch g))))
               (surfs g)))"

text \<open>
  The guard at the head of \<^verbatim>\<open>calcEdgeConnectivity\<close> and \<^verbatim>\<open>readEdgeConnectivity\<close>:
  \<^verbatim>\<open>
  if not self.con == None:
      print 'Warning edge connectivity will be overwritten. Enter 1 to continue, 0 to quit.'
      ans = raw_input()
      if ans == '0':
          return
  \<close>
  The lines the caller types are the list \<open>stdin\<close>; \<^verbatim>\<open>raw_input\<close> raises
  \<^verbatim>\<open>EOFError\<close> when there is none.
\<close>

datatype guard = Proceed | Return | Raise error

definition overwrite_guard :: "pyGeo \<Rightarrow> string list \<Rightarrow> guard" where
  "overwrite_guard g stdin =
     (if con g \<noteq> None then
        (case stdin of [] \<Rightarrow> Raise EOFError | ans # rest \<Rightarrow> if ans = ''0'' then Return else Proceed)
      else Proceed)"

text \<open>
  \<^verbatim>\<open>readEdgeConnectivity(self, file_name)\<close>, on the text of the file: \<open>read_run\<close> is
  the part after the guard.
\<close>

definition read_run :: "pyGeo \<Rightarrow> string \<Rightarrow> (error option \<times> pyGeo) option" where
  "read_run g content =
     (case load_con content of
        (Some err, cs) \<Rightarrow> Some (Some err, g\<lparr>con := Some cs\<rparr>)
      | (None, cs) \<Rightarrow> setEdgeConnectivity (g\<lparr>con := Some cs\<rparr>))"

definition readEdgeConnectivity :: "pyGeo \<Rightarrow> string list \<Rightarrow> string \<Rightarrow> (error option \<times> pyGeo) option" where
  "readEdgeConnectivity g stdin content =
     (case overwrite_guard g stdin of
        Raise err \<Rightarrow> Some (Some err, g)
      | Return \<Rightarrow> Some (None, g)
      | Proceed \<Rightarrow> read_run g content)"

section \<open>Computing the connectivity\<close>

text \<open>
  The entries of the local list \<^verbatim>\<open>edges\<close>: a joined entry
  \<^verbatim>\<open>[[ipatch,i],[jpatch,j],cont_flag,dir_flag,dg]\<close> or a mirrored entry
  \<^verbatim>\<open>[[i,j],dg]\<close>, with the accesses the source makes: \<^verbatim>\<open>edges[i][-1]\<close>,
  \<^verbatim>\<open>len(edges[i]) == 2\<close>, \<^verbatim>\<open>edges[i][0]\<close> and \<^verbatim>\<open>edges[i][order]\<close>.
\<close>

type_synonym eref = "nat \<times> nat"

datatype edges_entry = Joined eref eref int int int | Mirrored eref int

fun entry_dg :: "edges_entry \<Rightarrow> int" where
  "entry_dg (Joined a b ct d g) = g"
| "entry_dg (Mirrored a g) = g"

fun set_dg :: "int \<Rightarrow> edges_entry \<Rightarrow> edges_entry" where
  "set_dg k (Joined a b ct d g) = Joined a b ct d k"
| "set_dg k (Mirrored a g) = Mirrored a k"

fun is_mirrored :: "edges_entry \<Rightarrow> bool" where
  "is_mirrored (Joined a b ct d g) = False"
| "is_mirrored (Mirrored a g) = True"

fun first_ref :: "edges_entry \<Rightarrow> eref" where
  "first_ref (Joined a b ct d g) = a"
| "first_ref (Mirrored a g) = a"

fun entry_ref :: "edges_entry \<Rightarrow> nat \<Rightarrow> eref option" where
  "entry_ref (Joined a b ct d g) order = (if order = 0 then Some a else if order = 1 then Some b else None)"
| "entry_ref (Mirrored a g) order = (if order = 0 then Some a else None)"

fun entry_refs :: "edges_entry \<Rightarrow> eref list" where
  "entry_refs (Joined a b ct d g) = [a, b]"
| "entry_refs (Mirrored a g) = [a]"

text \<open>
  \<^verbatim>\<open>_flipEdge(self, edge)\<close>; \<open>None\<close> is the Python \<^verbatim>\<open>None\<close>.
\<close>

definition flipEdge :: "nat \<Rightarrow> nat option" where
  "flipEdge e =
     (if e = 0 then Some 1 else if e = 1 then Some 0 else if e = 2 then Some 3
      else if e = 3 then Some 2 else None)"

text \<open>
  The four nested loops over the patch pairs and their edges, and the list \<^verbatim>\<open>e_con\<close>
  of the pairs \<^verbatim>\<open>_test_edge\<close> finds coincident. The evaluation of a boundary curve,
  \<^verbatim>\<open>getValueEdge\<close>, belongs to the spline library and is the parameter \<open>gve\<close>.
\<close>

definition patch_pairs :: "nat \<Rightarrow> (nat \<times> nat \<times> nat \<times> nat) list" where
  "patch_pairs n =
     concat (map (\<lambda>ipatch.
       concat (map (\<lambda>jpatch.
         concat (map (\<lambda>i. map (\<lambda>j. (ipatch, jpatch, i, j)) [0..<4]) [0..<4]))
         [ipatch + 1..<n]))
       [0..<n])"

fun match_edges ::
  "(surf \<Rightarrow> surf_eval) \<Rightarrow> surf list \<Rightarrow> real \<Rightarrow> (nat \<times> nat \<times> nat \<times> nat) list \<Rightarrow>
   error + edges_entry list" where
  "match_edges gve ss edge_tol [] = Inr []"
| "match_edges gve ss edge_tol ((ipatch, jpatch, i, j) # rest) =
     (if ipatch < length ss \<and> jpatch < length ss then
        (case test_edge (gve (ss ! ipatch)) (gve (ss ! jpatch)) (int i) (int j) edge_tol of
           (coinc, dir_flag) \<Rightarrow>
             err_bind (match_edges gve ss edge_tol rest) (\<lambda>e_con.
               Inr (if coinc then Joined (ipatch, i) (jpatch, j) 0 dir_flag (- 1) # e_con
                    else e_con)))
      else Inl IndexError)"

text \<open>
  The edges that are in no joined entry become mirrored entries.
\<close>

definition mirrored_edges :: "nat \<Rightarrow> eref list \<Rightarrow> edges_entry list" where
  "mirrored_edges n edge_list =
     map (\<lambda>r. Mirrored r (- 1)) (filter (\<lambda>r. r \<notin> set edge_list) (corners n))"

text \<open>
  \<^verbatim>\<open>_getConIndex(self, edges, edge, nJoined, nMirrored)\<close>; \<^verbatim>\<open>edges.index(edge)\<close> is
  the first position of the edge and raises \<^verbatim>\<open>ValueError\<close> when there is none.
  \<open>flipped_index\<close> looks up the opposite edge of the same patch.
\<close>

definition getConIndex :: "eref list \<Rightarrow> eref \<Rightarrow> nat \<Rightarrow> error + nat \<times> nat" where
  "getConIndex edges r nJoined =
     (case list_index edges r of
        None \<Rightarrow> Inl ValueError
      | Some i \<Rightarrow>
          if i < nJoined then Inr (i div 2, i mod 2)
          else Inr (nJoined div 2 + i - nJoined, 0))"

definition flipped_index :: "eref list \<Rightarrow> nat \<Rightarrow> eref \<Rightarrow> error + nat \<times> nat" where
  "flipped_index edge_list nJoined r =
     (case flipEdge (snd r) of
        None \<Rightarrow> Inl ValueError
      | Some fe \<Rightarrow> getConIndex edge_list (fst r, fe) nJoined)"

text \<open>
  The \<^verbatim>\<open>while cont2\<close> loop that carries a driving group across the joined edges. The
  group counter is at least 0 whenever the loop runs (it starts at \<open>- 1\<close> and is
  incremented before); \<open>k\<close> is the counter as a natural number. Each turn of the loop
  that goes on has set the group of an entry that had none, so the loop ends.
\<close>

definition unset_count :: "edges_entry list \<Rightarrow> nat" where
  "unset_count edges = length (filter (\<lambda>x. entry_dg x = - 1) edges)"

function walk ::
  "eref list \<Rightarrow> nat \<Rightarrow> nat \<Rightarrow> edges_entry list \<Rightarrow> nat \<Rightarrow> nat \<Rightarrow> error + edges_entry list" where
  "walk edge_list nJoined k edges index order =
     (if index < length edges then
        (case entry_ref (edges ! index) order of
           None \<Rightarrow> Inl TypeError
         | Some cur \<Rightarrow>
            (case flipped_index edge_list nJoined cur of
               Inl err \<Rightarrow> Inl err
             | Inr (new_index, order') \<Rightarrow>
                 if new_index < length edges then
                   (if entry_dg (edges ! new_index) \<noteq> - 1 then Inr edges
                    else
                      (let edges' = edges[new_index := set_dg (int k) (edges ! new_index)]
                       in if is_mirrored (edges' ! new_index) then Inr edges'
                          else walk edge_list nJoined k edges' new_index (if order' = 0 then 1 else 0)))
                 else Inl IndexError))
      else Inl IndexError)"
  by pat_completeness auto

lemma entry_dg_set_dg [simp]: "entry_dg (set_dg k x) = k"
  by (cases x) simp_all

lemma unset_count_update:
  assumes "i < length xs" "entry_dg (xs ! i) = - 1"
  shows "unset_count (xs[i := set_dg (int k) (xs ! i)]) < unset_count xs"
proof -
  have a: "xs = take i xs @ xs ! i # drop (Suc i) xs"
    using assms(1) by (rule id_take_nth_drop)
  have b: "xs[i := set_dg (int k) (xs ! i)] = take i xs @ set_dg (int k) (xs ! i) # drop (Suc i) xs"
    using assms(1) by (rule upd_conv_take_nth_drop)
  have "unset_count (take i xs @ set_dg (int k) (xs ! i) # drop (Suc i) xs)
      < unset_count (take i xs @ xs ! i # drop (Suc i) xs)"
    using assms(2) by (simp add: unset_count_def)
  with a b show ?thesis by simp
qed

termination walk
  by (relation "measure (\<lambda>(edge_list, nJoined, k, edges, index, order). unset_count edges)")
    (auto simp: unset_count_update)

declare walk.simps [simp del]

text \<open>
  The body of the loop \<^verbatim>\<open>for i in xrange(len(edges))\<close> for an entry without a group:
  the entry and the entry of the opposite edge of its first side get the new group, then
  the group is carried on from both.
\<close>

definition walk_from ::
  "eref list \<Rightarrow> nat \<Rightarrow> nat \<Rightarrow> nat \<Rightarrow> edges_entry list \<Rightarrow> error + edges_entry list" where
  "walk_from edge_list nJoined k index edges =
     (if index < length edges then
        (if is_mirrored (edges ! index) then Inr edges
         else walk edge_list nJoined k edges index 1)
      else Inl IndexError)"

definition new_group ::
  "eref list \<Rightarrow> nat \<Rightarrow> nat \<Rightarrow> nat \<Rightarrow> edges_entry list \<Rightarrow> error + edges_entry list" where
  "new_group edge_list nJoined k i edges =
     (let edges1 = edges[i := set_dg (int k) (edges ! i)]
      in err_bind (flipped_index edge_list nJoined (first_ref (edges1 ! i))) (\<lambda>(flip_index, order).
           if flip_index < length edges1 then
             (let edges2 = edges1[flip_index := set_dg (int k) (edges1 ! flip_index)]
              in err_bind (walk_from edge_list nJoined k i edges2)
                   (walk_from edge_list nJoined k flip_index))
           else Inl IndexError))"

fun assign_groups ::
  "eref list \<Rightarrow> nat \<Rightarrow> nat list \<Rightarrow> nat \<Rightarrow> edges_entry list \<Rightarrow> error + edges_entry list" where
  "assign_groups edge_list nJoined [] k edges = Inr edges"
| "assign_groups edge_list nJoined (i # is) k edges =
     (if i < length edges then
        (if entry_dg (edges ! i) = - 1 then
           err_bind (new_group edge_list nJoined k i edges)
             (assign_groups edge_list nJoined is (Suc k))
         else assign_groups edge_list nJoined is k edges)
      else Inl IndexError)"

text \<open>
  The records are made from the strings the source formats; the first
  \<^verbatim>\<open>nJoined/2\<close> entries are formatted as joined edges, the others as mirror edges.
\<close>

definition init_string :: "nat \<Rightarrow> nat \<Rightarrow> edges_entry \<Rightarrow> error + string" where
  "init_string nJoined i x =
     (if i < nJoined div 2 then
        (case x of
           Joined a b ct d g \<Rightarrow>
             Inr (fmt_row (int i) (int (fst a)) (int (snd a)) 1 7 ct d g 10 (int (fst b)) (int (snd b)))
         | Mirrored a g \<Rightarrow> Inl TypeError)
      else
        (case x of
           Mirrored a g \<Rightarrow>
             Inr (fmt_row (int i) (int (fst a)) (int (snd a)) 0 3 (- 1) 1 g 10 (- 1) (- 1))
         | Joined a b ct d g \<Rightarrow> Inl TypeError))"

fun make_con :: "nat \<Rightarrow> nat \<Rightarrow> edges_entry list \<Rightarrow> edge list \<Rightarrow> error option \<times> edge list" where
  "make_con nJoined i [] acc = (None, acc)"
| "make_con nJoined i (x # xs) acc =
     (case err_bind (init_string nJoined i x) (\<lambda>s. edge_init (replace_bar s)) of
        Inl err \<Rightarrow> (Some err, acc)
      | Inr c \<Rightarrow> make_con nJoined (Suc i) xs (acc @ [c]))"

text \<open>
  \<^verbatim>\<open>calcEdgeConnectivity(self, node_tol, edge_tol)\<close>: \<open>calc_edges\<close> is the computation
  of the local list \<^verbatim>\<open>edges\<close>, \<open>calc_run\<close> the part after the guard.
\<close>

definition calc_edges ::
  "(surf \<Rightarrow> surf_eval) \<Rightarrow> pyGeo \<Rightarrow> real \<Rightarrow> error + nat \<times> edges_entry list" where
  "calc_edges gve g edge_tol =
     err_bind (match_edges gve (surfs g) edge_tol (patch_pairs (nPatch g))) (\<lambda>e_con.
       (let edge_list0 = concat (map entry_refs e_con);
            mirrored = mirrored_edges (nPatch g) edge_list0;
            edge_list = edge_list0 @ map first_ref mirrored;
            nJoined = length e_con * 2;
            edges = e_con @ mirrored
        in err_bind (assign_groups edge_list nJoined [0..<length edges] 0 edges)
             (\<lambda>edges'. Inr (nJoined, edges'))))"

definition calc_run ::
  "(surf \<Rightarrow> surf_eval) \<Rightarrow> pyGeo \<Rightarrow> real \<Rightarrow> (error option \<times> pyGeo) option" where
  "calc_run gve g edge_tol =
     (case calc_edges gve g edge_tol of
        Inl err \<Rightarrow> Some (Some err, g)
      | Inr (nJoined, edges) \<Rightarrow>
          (case make_con nJoined 0 edges [] of
             (Some err, cs) \<Rightarrow> Some (Some err, g\<lparr>con := Some cs\<rparr>)
           | (None, cs) \<Rightarrow> setEdgeConnectivity (g\<lparr>con := Some cs\<rparr>)))"

definition calcEdgeConnectivity ::
  "(surf \<Rightarrow> surf_eval) \<Rightarrow> pyGeo \<Rightarrow> string list \<Rightarrow> real \<Rightarrow> real \<Rightarrow> (error option \<times> pyGeo) option" where
  "calcEdgeConnectivity gve g stdin node_tol edge_tol =
     (case overwrite_guard g stdin of
        Raise err \<Rightarrow> Some (Some err, g)
      | Return \<Rightarrow> Some (None, g)
      | Proceed \<Rightarrow> calc_run gve g edge_tol)"

section \<open>Propagating the knot vectors\<close>

text \<open>
  \<^verbatim>\<open>propagateKnotVectors(self)\<close>. The records are first sorted into the list
  \<^verbatim>\<open>dg\<close> of groups: a record whose group is larger than the counter opens a new group,
  any other record is appended to \<^verbatim>\<open>dg[self.con[i].dg]\<close>.
\<close>

fun group_records :: "edge list \<Rightarrow> edge list list \<Rightarrow> error + edge list list" where
  "group_records [] groups = Inr groups"
| "group_records (c # cs) groups =
     (if dg c > int (length groups) - 1 then group_records cs (groups @ [[c]])
      else (case py_index (length groups) (dg c) of
              None \<Rightarrow> Inl IndexError
            | Some k \<Rightarrow> group_records cs (groups[k := groups ! k @ [c]])))"

text \<open>
  The knot vector of the first record's first patch, \<^verbatim>\<open>tu\<close> for the edges 0 and 1
  and \<^verbatim>\<open>tv\<close> otherwise, is assigned to the patches of every record of the group.
\<close>

definition is_u_edge :: "int \<Rightarrow> bool" where
  "is_u_edge e \<longleftrightarrow> e = 0 \<or> e = 1"

definition set_knots :: "int \<Rightarrow> real list \<Rightarrow> surf \<Rightarrow> error + surf" where
  "set_knots e knot_vec s = Inr (if is_u_edge e then s\<lparr>tu := knot_vec\<rparr> else s\<lparr>tv := knot_vec\<rparr>)"

definition copy_knots :: "real list \<Rightarrow> edge \<Rightarrow> surf list act" where
  "copy_knots knot_vec cur_edge =
     then_do (on_surf (f1 cur_edge) (set_knots (e1 cur_edge) knot_vec))
       (if type cur_edge = 1 then on_surf (f2 cur_edge) (set_knots (e2 cur_edge) knot_vec)
        else skip)"

definition propagate_group :: "edge list \<Rightarrow> surf list act" where
  "propagate_group grp ss =
     (case grp of
        [] \<Rightarrow> (Some IndexError, ss)
      | first_edge # rest \<Rightarrow>
          (case py_get ss (f1 first_edge) of
             Inl err \<Rightarrow> (Some err, ss)
           | Inr s \<Rightarrow>
               do_all (map (copy_knots (if is_u_edge (e1 first_edge) then tu s else tv s)) grp) ss))"

definition propagateKnotVectors :: "pyGeo \<Rightarrow> error option \<times> pyGeo" where
  "propagateKnotVectors g =
     (case con g of
        None \<Rightarrow> (Some TypeError, g)
      | Some cs \<Rightarrow>
          (case group_records cs [] of
             Inl err \<Rightarrow> (Some err, g)
           | Inr groups \<Rightarrow>
               (case do_all (map propagate_group groups) (surfs g) of
                  (r, ss) \<Rightarrow> (r, g\<lparr>surfs := ss\<rparr>))))"

section \<open>Sample patches for the connectivity\<close>

text \<open>
  The boundary curves of a patch of \<open>2 \<times> 2\<close> control points, which is bilinear, and two
  unit squares side by side, without a connectivity yet.
\<close>

definition lerp :: "real \<Rightarrow> point \<Rightarrow> point \<Rightarrow> point" where
  "lerp s = (\<lambda>(a0, a1, a2) (b0, b1, b2). ((1 - s) * a0 + s * b0, (1 - s) * a1 + s * b1, (1 - s) * a2 + s * b2))"

definition bilinear_edge :: "surf \<Rightarrow> surf_eval" where
  "bilinear_edge p e s =
     (if e = 0 then lerp s (coef p (0, 0)) (coef p (1, 0))
      else if e = 1 then lerp s (coef p (0, 1)) (coef p (1, 1))
      else if e = 2 then lerp s (coef p (0, 0)) (coef p (0, 1))
      else lerp s (coef p (1, 0)) (coef p (1, 1)))"

definition shifted_patch :: "real \<Rightarrow> surf" where
  "shifted_patch x = (flat_patch 0)\<lparr>coef := (\<lambda>(i, j). (x + real i, real j, 0))\<rparr>"

definition row_of_two :: pyGeo where
  "row_of_two = \<lparr>surfs = [shifted_patch 0, shifted_patch 1], nPatch = 2, con = None\<rparr>"

definition sq_dist :: "point \<Rightarrow> point \<Rightarrow> real" where
  "sq_dist = (\<lambda>(a0, a1, a2) (b0, b1, b2). (a0 - b0)\<^sup>2 + (a1 - b1)\<^sup>2 + (a2 - b2)\<^sup>2)"

section \<open>Lemmas on the connectivity table\<close>

lemma digit_cases:
  "d < 10 \<Longrightarrow> d = 0 \<or> d = 1 \<or> d = 2 \<or> d = 3 \<or> d = 4 \<or> d = 5 \<or> d = 6 \<or> d = 7 \<or> d = 8 \<or> d = (9::nat)"
  by arith

lemma digit_val_digit_char: "d < 10 \<Longrightarrow> digit_val (digit_char d) = Some d"
  using digit_cases [of d] by (auto simp: digit_val_def digit_char_def)

lemma tok_char_digit: "d < 10 \<Longrightarrow> tok_char (digit_char d)"
  using digit_cases [of d] by (auto simp: tok_char_def is_space_def digit_char_def)

lemma parse_digits_snoc:
  "parse_digits acc (xs @ [c]) =
     (case parse_digits acc xs of
        None \<Rightarrow> None
      | Some a \<Rightarrow> (case digit_val c of None \<Rightarrow> None | Some d \<Rightarrow> Some (10 * a + d)))"
  by (induction xs arbitrary: acc) (auto split: option.splits)

lemma parse_digits_str_nat: "parse_digits 0 (str_nat n) = Some n"
proof (induction n rule: str_nat.induct)
  case (1 n)
  show ?case
  proof (cases "n < 10")
    case True
    then show ?thesis
      by (subst str_nat.simps) (simp add: digit_val_digit_char)
  next
    case False
    with 1 have "parse_digits 0 (str_nat (n div 10)) = Some (n div 10)" by simp
    with False show ?thesis
      by (subst str_nat.simps) (simp add: parse_digits_snoc digit_val_digit_char)
  qed
qed

lemma str_nat_nonempty: "str_nat n \<noteq> []"
  by (subst str_nat.simps) simp

lemma tok_char_str_nat: "c \<in> set (str_nat n) \<Longrightarrow> tok_char c"
proof (induction n rule: str_nat.induct)
  case (1 n)
  show ?case
  proof (cases "n < 10")
    case True
    with 1(2) show ?thesis
      by (subst (asm) str_nat.simps) (simp add: tok_char_digit)
  next
    case False
    with 1 show ?thesis
      by (subst (asm) (2) str_nat.simps) (auto simp: tok_char_digit)
  qed
qed

lemma str_nat_hd_digit: "\<exists>d r. str_nat n = digit_char d # r \<and> d < 10"
proof (induction n rule: str_nat.induct)
  case (1 n)
  show ?case
  proof (cases "n < 10")
    case True
    then show ?thesis by (subst str_nat.simps) auto
  next
    case False
    with 1 obtain d r where "str_nat (n div 10) = digit_char d # r" "d < 10" by auto
    with False show ?thesis by (subst str_nat.simps) auto
  qed
qed

lemma py_int_str_int: "py_int (str_int i) = Inr i"
proof (cases "i < 0")
  case True
  then show ?thesis
    by (simp add: py_int_def str_int_def str_nat_nonempty parse_digits_str_nat)
next
  case False
  obtain d r where dr: "str_nat (nat i) = digit_char d # r" "d < 10"
    using str_nat_hd_digit by blast
  then have "digit_char d \<noteq> CHR ''-''" "digit_char d \<noteq> CHR ''+''"
    using digit_cases [of d] by (auto simp: digit_char_def)
  moreover have "parse_digits 0 (digit_char d # r) = Some (nat i)"
    using parse_digits_str_nat [of "nat i"] dr by simp
  ultimately show ?thesis
    using False dr by (simp add: py_int_def str_int_def)
qed

lemma str_int_nonempty: "str_int i \<noteq> []"
  by (simp add: str_int_def str_nat_nonempty)

lemma tok_char_str_int: "c \<in> set (str_int i) \<Longrightarrow> tok_char c"
  by (auto simp: str_int_def tok_char_str_nat split: if_splits) (simp add: tok_char_def is_space_def)

lemma split_acc_token:
  "(\<forall>c \<in> set t. \<not> is_space c) \<Longrightarrow> split_acc cur (t @ s) = split_acc (rev t @ cur) s"
  by (induction t arbitrary: cur) simp_all

lemma split_acc_spaces:
  "(\<forall>c \<in> set sp. is_space c) \<Longrightarrow> split_acc [] (sp @ s) = split_acc [] s"
  by (induction sp) simp_all

lemma split_token_sep:
  assumes "t \<noteq> []" "\<forall>c \<in> set t. \<not> is_space c" "is_space x"
  shows "split_acc [] (t @ x # s) = t # split_acc [] s"
  using assms by (simp add: split_acc_token)

lemma replace_bar_append: "replace_bar (a @ b) = replace_bar a @ replace_bar b"
  by (simp add: replace_bar_def)

lemma replace_bar_tok: "(\<forall>c \<in> set t. tok_char c) \<Longrightarrow> replace_bar t = t"
  by (induction t) (auto simp: replace_bar_def tok_char_def)

lemma replace_bar_sep: "(\<forall>c \<in> set sp. sep_char c) \<Longrightarrow> \<forall>c \<in> set (replace_bar sp). is_space c"
  by (auto simp: replace_bar_def sep_char_def is_space_def)

lemma split_fmt3d:
  assumes "sp \<noteq> []" "\<forall>c \<in> set sp. sep_char c"
  shows "split_acc [] (replace_bar (fmt3d i @ sp @ s)) = str_int i # split_acc [] (replace_bar s)"
proof -
  let ?pad = "replicate (3 - length (str_int i)) CHR '' ''"
  have pad: "\<forall>c \<in> set ?pad. is_space c" by (simp add: is_space_def)
  have padr: "replace_bar ?pad = ?pad" by (simp add: replace_bar_def)
  have tok: "replace_bar (str_int i) = str_int i"
    by (rule replace_bar_tok) (simp add: tok_char_str_int)
  have nsp: "\<forall>c \<in> set (str_int i). \<not> is_space c"
    using tok_char_str_int by (auto simp: tok_char_def)
  obtain x r where xr: "replace_bar sp = x # r"
    using assms(1) by (cases sp) (auto simp: replace_bar_def)
  have spx: "is_space x" and spr: "\<forall>c \<in> set r. is_space c"
    using replace_bar_sep [OF assms(2)] xr by auto
  have "split_acc [] (replace_bar (fmt3d i @ sp @ s))
      = split_acc [] (?pad @ (str_int i @ x # (r @ replace_bar s)))"
    by (simp add: fmt3d_def replace_bar_append padr tok xr)
  also have "\<dots> = split_acc [] (str_int i @ x # (r @ replace_bar s))"
    using pad by (rule split_acc_spaces)
  also have "\<dots> = str_int i # split_acc [] (r @ replace_bar s)"
    using str_int_nonempty nsp spx by (rule split_token_sep)
  also have "split_acc [] (r @ replace_bar s) = split_acc [] (replace_bar s)"
    using spr by (rule split_acc_spaces)
  finally show ?thesis .
qed

lemma split_fmt3d_Cons:
  "sep_char x \<Longrightarrow>
   split_acc [] (replace_bar (fmt3d i @ x # s)) = str_int i # split_acc [] (replace_bar s)"
  using split_fmt3d [of "[x]" i s] by simp

lemma split_sep_Cons:
  "sep_char x \<Longrightarrow> split_acc [] (replace_bar (x # s)) = split_acc [] (replace_bar s)"
  by (auto simp: replace_bar_def sep_char_def is_space_def)

lemma split_replace_Nil: "split_acc [] (replace_bar []) = []"
  by (simp add: replace_bar_def)

lemma split_fmt_row:
  "string_split (replace_bar (fmt_row a0 a1 a2 a3 a4 a5 a6 a7 a8 a9 a10)) =
     map str_int [a0, a1, a2, a3, a4, a5, a6, a7, a8, a9, a10]"
  unfolding fmt_row_def string_split_def
  by (simp add: split_fmt3d_Cons split_sep_Cons split_replace_Nil sep_char_def is_space_def)

lemma edge_init_valid: "edge_init l = Inr c \<Longrightarrow> edge_valid c"
  by (auto simp: edge_init_def Let_def err_bind_def edge_valid_def split: sum.splits if_splits)

lemma aux_int_row:
  "k < 11 \<Longrightarrow> aux_int (map str_int [a0, a1, a2, a3, a4, a5, a6, a7, a8, a9, a10]) k =
     Inr ([a0, a1, a2, a3, a4, a5, a6, a7, a8, a9, a10] ! k)"
  unfolding aux_int_def by (simp add: py_int_str_int del: list.map)

lemma edge_init_write_info:
  assumes "edge_valid c"
  shows "edge_init (replace_bar (write_info c i)) = Inr c"
proof -
  have "edge_init (replace_bar (write_info c i)) =
      Inr (if type c = 0 then
        \<lparr>type = type c, f1 = f1 c, e1 = e1 c, dg = dg c, Nctl = Nctl c, dof = dof c, cont = - 1,
         dir = 1, f2 = - 1, e2 = - 1\<rparr>
      else
        \<lparr>type = type c, f1 = f1 c, e1 = e1 c, dg = dg c, Nctl = Nctl c, dof = 7, cont = cont c,
         dir = dir c, f2 = f2 c, e2 = e2 c\<rparr>)"
    unfolding edge_init_def write_info_def split_fmt_row Let_def
    by (simp add: aux_int_row err_bind_def del: list.map)
  also have "\<dots> = Inr c"
    using assms by (cases c) (auto simp: edge_valid_def split: if_splits)
  finally show ?thesis .
qed

lemma newline_fmt3d: "CHR 0x0A \<notin> set (fmt3d i)"
  using tok_char_str_int [of "CHR 0x0A" i] by (auto simp: fmt3d_def tok_char_def is_space_def)

lemma lines_acc_segment:
  "CHR 0x0A \<notin> set t \<Longrightarrow> lines_acc cur (t @ s) = lines_acc (rev t @ cur) s"
  by (induction t arbitrary: cur) auto

lemma lines_acc_fmt_row:
  "lines_acc [] (fmt_row a0 a1 a2 a3 a4 a5 a6 a7 a8 a9 a10 @ s) =
     fmt_row a0 a1 a2 a3 a4 a5 a6 a7 a8 a9 a10 # lines_acc [] s"
  unfolding fmt_row_def
  by (simp add: lines_acc_segment newline_fmt3d)

lemma py_lines_records:
  "lines_acc [] (write_records i cs) = map (\<lambda>(k, c). write_info c (int k)) (enumerate i cs)"
  by (induction cs arbitrary: i) (simp_all add: write_info_def lines_acc_fmt_row)

lemma py_lines_file:
  "py_lines (header_line @ write_records 0 cs) =
     header_line # map (\<lambda>(k, c). write_info c (int k)) (enumerate 0 cs)"
  unfolding py_lines_def header_line_def
  by (simp add: py_lines_records)

lemma read_records_written:
  "\<forall>c \<in> set cs. edge_valid c \<Longrightarrow>
   read_records (map replace_bar (map (\<lambda>(k, c). write_info c (int k)) (enumerate i cs))) acc =
     (None, acc @ cs)"
  by (induction cs arbitrary: i acc) (simp_all add: edge_init_write_info)

lemma load_con_written:
  "\<forall>c \<in> set cs. edge_valid c \<Longrightarrow> load_con (header_line @ write_records 0 cs) = (None, cs)"
  unfolding load_con_def py_lines_file
  using read_records_written [of cs 0 "[]"] by simp

lemma e_dist_less_iff: "e_dist p q < t \<longleftrightarrow> 0 < t \<and> sq_dist p q < t\<^sup>2"
proof (cases p, cases q)
  fix a0 a1 a2 b0 b1 b2
  assume p: "p = (a0, a1, a2)" and q: "q = (b0, b1, b2)"
  let ?x = "(a0 - b0)\<^sup>2 + (a1 - b1)\<^sup>2 + (a2 - b2)\<^sup>2"
  have nn: "0 \<le> ?x" by simp
  show ?thesis
  proof (cases "0 < t")
    case True
    then have "sqrt ?x < t \<longleftrightarrow> ?x < t\<^sup>2"
      using nn by (metis real_sqrt_less_iff real_sqrt_abs abs_of_pos)
    with True show ?thesis by (simp add: p q sq_dist_def)
  next
    case False
    have "0 \<le> sqrt ?x" using nn by simp
    with False have "\<not> sqrt ?x < t" by linarith
    with False show ?thesis by (simp add: p q)
  qed
qed

section \<open>The claims on the connectivity table and on the overwrite guard\<close>

lemma setEdgeConnectivity_con:
  "setEdgeConnectivity g = Some (r, g') \<Longrightarrow> con g' = con g"
  by (auto simp: setEdgeConnectivity_def split: option.splits)

lemma read_run_con:
  "read_run g content = Some (r, g') \<Longrightarrow> con g' = Some (snd (load_con content))"
  by (auto simp: read_run_def split: prod.splits option.splits dest!: setEdgeConnectivity_con)

lemma setEdgeConnectivity_empty:
  "con g = Some [] \<Longrightarrow>
   setEdgeConnectivity g =
     Some (case back_propagate (nPatch g) (surfs g) of (r, ss) \<Rightarrow> (r, g\<lparr>surfs := ss\<rparr>))"
  by (simp add: setEdgeConnectivity_def then_opt_def lift_act_def skip_def split: prod.splits option.splits)

text \<open>
  Claim C6: for every valid in-memory connectivity set, writing it to the tabular text
  and parsing that text back yields the same list of records, every field unchanged and
  in the same order. The parser is the loading part of \<^verbatim>\<open>readEdgeConnectivity\<close>, and
  the list it yields is the one any run of \<^verbatim>\<open>readEdgeConnectivity\<close> on that text that
  passes the guard and returns leaves in \<^verbatim>\<open>self.con\<close>.
\<close>

theorem connectivity_round_trip:
  assumes "con g = Some cs" and "\<forall>c \<in> set cs. edge_valid c"
  shows "fst (writeEdgeConnectivity g) = None \<and>
         load_con (snd (writeEdgeConnectivity g)) = (None, cs) \<and>
         (\<forall>g0 stdin r g1.
            overwrite_guard g0 stdin = Proceed \<longrightarrow>
            readEdgeConnectivity g0 stdin (snd (writeEdgeConnectivity g)) = Some (r, g1) \<longrightarrow>
            con g1 = Some cs)"
proof -
  have w: "writeEdgeConnectivity g = (None, header_line @ write_records 0 cs)"
    using assms(1) by (simp add: writeEdgeConnectivity_def)
  have l: "load_con (header_line @ write_records 0 cs) = (None, cs)"
    using assms(2) by (rule load_con_written)
  have "con g1 = Some cs"
    if "overwrite_guard g0 stdin = Proceed"
      and "readEdgeConnectivity g0 stdin (header_line @ write_records 0 cs) = Some (r, g1)"
    for g0 stdin r g1
    using that read_run_con [of g0 "header_line @ write_records 0 cs" r g1]
    by (simp add: readEdgeConnectivity_def l)
  with w l show ?thesis by simp
qed

lemma two_patches_valid: "\<forall>c \<in> set (the (con two_patches)). edge_valid c"
  by (simp add: two_patches_def edge_valid_def joined_edge_def mirror_edge_def)

text \<open>
  Claim C6 at the connectivity of \<open>two_patches\<close>.
\<close>

theorem connectivity_round_trip_witness:
  "con two_patches = Some (the (con two_patches)) \<and>
   (edge_valid (joined_edge 0 1 1 0 (- 1) 0) \<and> edge_valid (mirror_edge 1 3 2)) \<and>
   load_con (snd (writeEdgeConnectivity two_patches)) = (None, the (con two_patches))"
proof -
  have c: "con two_patches = Some (the (con two_patches))"
    by (simp add: two_patches_def)
  have v: "edge_valid (joined_edge 0 1 1 0 (- 1) 0) \<and> edge_valid (mirror_edge 1 3 2)"
    by (simp add: edge_valid_def joined_edge_def mirror_edge_def)
  from connectivity_round_trip [OF c two_patches_valid] c v show ?thesis
    by blast
qed

text \<open>
  Claim C7, as stated, fails when the caller answers the prompt with anything but
  \<^verbatim>\<open>0\<close>: with the answer \<^verbatim>\<open>n\<close>, which confirms nothing, \<^verbatim>\<open>readEdgeConnectivity\<close>
  on a file that holds the header line only replaces the seven records of \<open>two_patches\<close>
  by the empty list.
\<close>

theorem overwrite_guard_counterexample:
  "con two_patches \<noteq> None \<and> con two_patches \<noteq> Some [] \<and>
   map_option (\<lambda>x. con (snd x)) (readEdgeConnectivity two_patches [''n''] header_line) = Some (Some [])"
proof -
  have l: "load_con header_line = (None, [])"
    using load_con_written [of "[]"] by simp
  have g: "overwrite_guard two_patches [''n''] = Proceed"
    by (simp add: overwrite_guard_def two_patches_def)
  have "readEdgeConnectivity two_patches [''n''] header_line =
      setEdgeConnectivity (two_patches\<lparr>con := Some []\<rparr>)"
    by (simp add: readEdgeConnectivity_def g read_run_def l)
  then show ?thesis
    by (simp add: setEdgeConnectivity_empty two_patches_def split: prod.splits)
qed

text \<open>
  Claim C7, amended: whenever a connectivity is already set, \<^verbatim>\<open>calcEdgeConnectivity\<close>
  and \<^verbatim>\<open>readEdgeConnectivity\<close> ask before they overwrite it; they return with the whole
  state unmodified when the caller answers \<^verbatim>\<open>0\<close> (and raise, the state unmodified, when
  there is no answer to read); on every other answer they go on and overwrite, exactly as
  they run when no connectivity is set.
\<close>

theorem overwrite_guard_spec:
  "con g \<noteq> None \<longrightarrow>
     calcEdgeConnectivity gve g (''0'' # rest) node_tol edge_tol = Some (None, g) \<and>
     readEdgeConnectivity g (''0'' # rest) content = Some (None, g) \<and>
     calcEdgeConnectivity gve g [] node_tol edge_tol = Some (Some EOFError, g) \<and>
     readEdgeConnectivity g [] content = Some (Some EOFError, g) \<and>
     (ans \<noteq> ''0'' \<longrightarrow>
        calcEdgeConnectivity gve g (ans # rest) node_tol edge_tol = calc_run gve g edge_tol \<and>
        readEdgeConnectivity g (ans # rest) content = read_run g content)"
  by (simp add: calcEdgeConnectivity_def readEdgeConnectivity_def overwrite_guard_def)

text \<open>
  The amended claim C7 at \<open>two_patches\<close>: the answer \<^verbatim>\<open>0\<close> leaves it as it is, the
  answer \<^verbatim>\<open>1\<close> loads the empty table.
\<close>

theorem overwrite_guard_spec_witness:
  "con two_patches \<noteq> None \<and>
   readEdgeConnectivity two_patches [''0''] header_line = Some (None, two_patches) \<and>
   ''1'' \<noteq> ''0'' \<and>
   readEdgeConnectivity two_patches [''1''] header_line = read_run two_patches header_line \<and>
   map_option (\<lambda>x. con (snd x)) (read_run two_patches header_line) = Some (Some [])"
proof -
  have c: "con two_patches \<noteq> None"
    by (simp add: two_patches_def)
  have n: "''1'' \<noteq> ''0''" by simp
  have l: "load_con header_line = (None, [])"
    using load_con_written [of "[]"] by simp
  have r: "map_option (\<lambda>x. con (snd x)) (read_run two_patches header_line) = Some (Some [])"
    by (simp add: read_run_def l setEdgeConnectivity_empty two_patches_def split: prod.splits)
  from overwrite_guard_spec [of two_patches bilinear_edge "[]" 0 0 header_line "''1''"] c n
  have "readEdgeConnectivity two_patches [''0''] header_line = Some (None, two_patches)"
    and "readEdgeConnectivity two_patches [''1''] header_line = read_run two_patches header_line"
    by blast+
  with c n r show ?thesis by blast
qed

end
